theory Spec2Isabelle
  imports Main "HOL-Library.AList"
begin

section \<open>Python values, dictionaries and exceptions\<close>

text \<open>
  Python values: \<^verbatim>\<open>None\<close>, booleans, integers, strings, dictionaries with string keys,
  and \<open>PyObj n\<close>, any other object that is not a class (a model, a tokenizer, a
  configuration object, a tuple), known only by its identity.
\<close>

datatype pyval =
    PyNone | PyBool bool | PyInt int | PyStr string | PyDict "(string \<times> pyval) list" | PyObj nat

text \<open>
  A \<^verbatim>\<open>dict[str, Any]\<close> is an association list in insertion order. A well-formed
  dictionary has distinct keys; \<open>map_of\<close> reads it.
\<close>

type_synonym kwargs = "(string \<times> pyval) list"

text \<open>The exceptions the code raises or lets through, as values.\<close>

datatype error =
    BentoMLException string
  | OpenLLMException string
  | ForbiddenAttributeError string
  | AssertionError string
  | AttributeError string
  | TypeError string
  | KeyError string
  | IndexError string
  | BackendError string

text \<open>\<^verbatim>\<open>d[k] = v\<close> for each item in turn, starting from the empty dictionary: what a
  dictionary comprehension or display builds.\<close>

definition dict_of_items :: "(string \<times> pyval) list \<Rightarrow> kwargs" where
  "dict_of_items items = fold (\<lambda>(k, v). AList.update k v) items []"

text \<open>\<^verbatim>\<open>{**a, **b}\<close>: the entries of \<open>a\<close>, then those of \<open>b\<close>, later values winning.\<close>

definition dict_merge :: "kwargs \<Rightarrow> kwargs \<Rightarrow> kwargs" where
  "dict_merge a b = dict_of_items (a @ b)"

text \<open>\<^verbatim>\<open>d.pop(k, default)\<close>: the value and the dictionary without the key.\<close>

definition dict_pop :: "string \<Rightarrow> pyval \<Rightarrow> kwargs \<Rightarrow> pyval \<times> kwargs" where
  "dict_pop k dflt d =
     (case map_of d k of None \<Rightarrow> (dflt, d) | Some v \<Rightarrow> (v, AList.delete k d))"

definition well_formed_dict :: "kwargs \<Rightarrow> bool" where
  "well_formed_dict d = distinct (map fst d)"

definition startswith :: "string \<Rightarrow> string \<Rightarrow> bool" where
  "startswith s p = (take (length p) s = p)"

text \<open>Truth value of \<^verbatim>\<open>dict | None\<close>: \<^verbatim>\<open>None\<close> and the empty dictionary are false.\<close>

definition truthy_dict :: "kwargs option \<Rightarrow> bool" where
  "truthy_dict d = (case d of None \<Rightarrow> False | Some m \<Rightarrow> m \<noteq> [])"

text \<open>
  A call \<^verbatim>\<open>f(..., a=x, b=y, **kwds)\<close> fails (multiple values for a keyword argument)
  when \<open>kwds\<close> has one of the names that the call already binds: \<open>kw_clash_name\<close> is
  the first such key of \<open>kwds\<close>, the one that the exception names.
\<close>

definition kw_clash_name :: "string list \<Rightarrow> kwargs \<Rightarrow> string option" where
  "kw_clash_name names kwds = find (\<lambda>k. k \<in> set names) (map fst kwds)"

definition kw_clash :: "string list \<Rightarrow> kwargs \<Rightarrow> bool" where
  "kw_clash names kwds = (kw_clash_name names kwds \<noteq> None)"

text \<open>The first of the keywords \<open>ks\<close>, given in this order after the keywords \<open>seen\<close>,
  that has been given before.\<close>

fun first_duplicate :: "string list \<Rightarrow> string list \<Rightarrow> string option" where
  "first_duplicate seen [] = None"
| "first_duplicate seen (k # ks) =
     (if k \<in> set seen then Some k else first_duplicate (seen @ [k]) ks)"

text \<open>\<^verbatim>\<open>str.upper\<close> and \<^verbatim>\<open>str.replace("-", "_")\<close> on ASCII text, which \<open>is_ascii\<close>
  recognises.\<close>

definition is_ascii :: "string \<Rightarrow> bool" where
  "is_ascii s = list_all (\<lambda>ch. (of_char ch :: nat) < 128) s"

definition char_upper :: "char \<Rightarrow> char" where
  "char_upper c =
     (case map_of (zip ''abcdefghijklmnopqrstuvwxyz'' ''ABCDEFGHIJKLMNOPQRSTUVWXYZ'') c of
        None \<Rightarrow> c
      | Some u \<Rightarrow> u)"

definition upper :: "string \<Rightarrow> string" where
  "upper s = map char_upper s"

definition replace_dash :: "string \<Rightarrow> string" where
  "replace_dash s = map (\<lambda>c. if c = CHR ''-'' then CHR ''_'' else c) s"

section \<open>Task types (\<^verbatim>\<open>TypeMeta\<close>, \<^verbatim>\<open>TaskType\<close>)\<close>

datatype TaskType = TEXT_GENERATION | TEXT2TEXT_GENERATION

text \<open>\<^verbatim>\<open>enum.auto()\<close> numbers the members from 1.\<close>

fun TaskType_value :: "TaskType \<Rightarrow> nat" where
  "TaskType_value TEXT_GENERATION = 1"
| "TaskType_value TEXT2TEXT_GENERATION = 2"

definition TaskType_getitem :: "string \<Rightarrow> error + TaskType" where
  "TaskType_getitem key =
     (let normalised = upper (replace_dash key) in
      if normalised = ''TEXT_GENERATION'' then Inr TEXT_GENERATION
      else if normalised = ''TEXT2TEXT_GENERATION'' then Inr TEXT2TEXT_GENERATION
      else Inl (OpenLLMException ''TaskType is not yet supported.''))"

datatype framework = pt | tf | flax

fun framework_str :: "framework \<Rightarrow> string" where
  "framework_str pt = ''pt''"
| "framework_str tf = ''tf''"
| "framework_str flax = ''flax''"

fun return_tensors_to_framework_map :: "framework \<Rightarrow> string list" where
  "return_tensors_to_framework_map pt = [''AutoModelForCausalLM'', ''AutoModelForSeq2SeqLM'']"
| "return_tensors_to_framework_map tf = [''TFAutoModelForCausalLM'', ''TFAutoModelForSeq2SeqLM'']"
| "return_tensors_to_framework_map flax =
     [''FlaxAutoModelForCausalLM'', ''FlaxAutoModelForSeq2SeqLM'']"

definition tuple_get :: "'a list \<Rightarrow> nat \<Rightarrow> error + 'a" where
  "tuple_get xs i = (if i < length xs then Inr (xs ! i) else Inl (IndexError ''tuple index out of range''))"

section \<open>The reserved namespace and attribute assignment\<close>

definition reserved_namespace :: "string set" where
  "reserved_namespace =
     {''default_model'', ''variants'', ''config_class'', ''model'', ''tokenizer'', ''import_kwargs''}"

text \<open>The properties that class \<^verbatim>\<open>LLM\<close> declares with \<^verbatim>\<open>@property\<close> and no setter.\<close>

definition LLM_properties :: "string list" where
  "LLM_properties =
     [''llm_type'', ''identifying_params'', ''_bentomodel'', ''tag'', ''model'', ''tokenizer'']"

text \<open>
  The data descriptor that Python finds for a name in the class of an instance that has
  an instance dictionary. \<open>props\<close> are the names under which the class has a property
  without a setter; \<^verbatim>\<open>__class__\<close>, \<^verbatim>\<open>__dict__\<close> and \<^verbatim>\<open>__weakref__\<close> are the descriptors
  that every such class has, unless a property of the class hides them.
\<close>

datatype descriptor = Property_without_setter | Slot_class | Slot_dict | Slot_weakref

definition data_descriptor :: "string list \<Rightarrow> string \<Rightarrow> descriptor option" where
  "data_descriptor props attr =
     (if attr \<in> set props then Some Property_without_setter
      else if attr = ''__class__'' then Some Slot_class
      else if attr = ''__dict__'' then Some Slot_dict
      else if attr = ''__weakref__'' then Some Slot_weakref
      else None)"

text \<open>
  Python's \<^verbatim>\<open>object.__setattr__(self, attr, value)\<close> on an instance with instance
  dictionary \<open>d\<close> (\<^verbatim>\<open>self.__dict__\<close>): the instance dictionary afterwards, or the
  exception. A data descriptor of the class takes the assignment: a property without a
  setter refuses it (\<^verbatim>\<open>AttributeError\<close>), \<^verbatim>\<open>__class__\<close> refuses a value that is not a
  class (\<^verbatim>\<open>TypeError\<close>), \<^verbatim>\<open>__dict__\<close> refuses a value that is not a dictionary
  (\<^verbatim>\<open>TypeError\<close>) and makes a dictionary the instance dictionary, \<^verbatim>\<open>__weakref__\<close> is not
  writable (\<^verbatim>\<open>AttributeError\<close>). Under any other name the value is stored in the
  instance dictionary.
\<close>

definition object_setattr :: "string list \<Rightarrow> string \<Rightarrow> pyval \<Rightarrow> kwargs \<Rightarrow> error + kwargs" where
  "object_setattr props attr v d =
     (case data_descriptor props attr of
        None \<Rightarrow> Inr (AList.update attr v d)
      | Some Property_without_setter \<Rightarrow> Inl (AttributeError attr)
      | Some Slot_class \<Rightarrow> Inl (TypeError attr)
      | Some Slot_dict \<Rightarrow> (case v of PyDict d' \<Rightarrow> Inr d' | _ \<Rightarrow> Inl (TypeError attr))
      | Some Slot_weakref \<Rightarrow> Inl (AttributeError attr))"

text \<open>
  \<^verbatim>\<open>LLM.__setattr__(self, attr, value)\<close>: the guard, then \<^verbatim>\<open>super().__setattr__\<close>, whose
  outcome is \<open>super_setattr\<close>.
\<close>

definition LLM_setattr :: "string \<Rightarrow> error + 'o \<Rightarrow> error + 'o" where
  "LLM_setattr attr super_setattr =
     (if attr \<in> reserved_namespace then Inl (ForbiddenAttributeError attr)
      else super_setattr)"

text \<open>
  \<^verbatim>\<open>self.<attr> = value\<close> on an instance with instance dictionary \<open>d\<close>, of \<^verbatim>\<open>LLM\<close> or of
  a subclass that declares the further properties without setter \<open>subclass_props\<close>.
\<close>

definition LLM_assign :: "string list \<Rightarrow> string \<Rightarrow> pyval \<Rightarrow> kwargs \<Rightarrow> error + kwargs" where
  "LLM_assign subclass_props attr v d =
     LLM_setattr attr (object_setattr (LLM_properties @ subclass_props) attr v d)"

text \<open>
  The assignments that the modelled methods make, on the record that stands for the
  instance: to \<open>config\<close>, \<open>_pretrained\<close>, \<open>_args\<close>, \<open>_kwargs\<close>, the three caches and
  \<open>model\<close>. \<open>store\<close> is the update of the record that storing the value amounts to.
  The values are no classes, no method assigns to \<^verbatim>\<open>__dict__\<close>, and the properties in the
  way are those of \<^verbatim>\<open>LLM\<close> (no class among the sources declares a property under one of
  these names).
\<close>

definition own_setattr :: "string \<Rightarrow> ('o \<Rightarrow> 'o) \<Rightarrow> 'o \<Rightarrow> error + 'o" where
  "own_setattr attr store self =
     LLM_setattr attr
       (case data_descriptor LLM_properties attr of
          None \<Rightarrow> Inr (store self)
        | Some Property_without_setter \<Rightarrow> Inl (AttributeError attr)
        | Some Slot_class \<Rightarrow> Inl (TypeError attr)
        | Some Slot_dict \<Rightarrow> Inl (TypeError attr)
        | Some Slot_weakref \<Rightarrow> Inl (AttributeError attr))"

section \<open>Splitting keyword parameters (\<^verbatim>\<open>_bentomodel\<close>, the two comprehensions and the merge)\<close>

definition tokenizer_prefix :: string where
  "tokenizer_prefix = ''_tokenizer_''"

definition tokenizer_scoped :: "kwargs \<Rightarrow> kwargs" where
  "tokenizer_scoped kwds =
     dict_of_items (map (\<lambda>(k, v). (drop (length tokenizer_prefix) k, v))
                        (filter (\<lambda>(k, v). startswith k tokenizer_prefix) kwds))"

definition model_scoped :: "kwargs \<Rightarrow> kwargs" where
  "model_scoped kwds =
     dict_of_items (filter (\<lambda>(k, v). \<not> startswith k tokenizer_prefix) kwds)"

text \<open>The pair \<open>(tokenizer_kwds, kwds)\<close> that the accessor hands to the import routine.\<close>

definition split_kwds :: "kwargs option \<Rightarrow> kwargs \<Rightarrow> kwargs \<times> kwargs" where
  "split_kwds import_kwargs kwds =
     (let tokenizer_kwds = tokenizer_scoped kwds;
          kwds' = model_scoped kwds
      in if truthy_dict import_kwargs
         then (case import_kwargs of
                 None \<Rightarrow> (tokenizer_kwds, kwds')
               | Some ik \<Rightarrow> (dict_merge (tokenizer_scoped ik) tokenizer_kwds,
                             dict_merge (model_scoped ik) kwds'))
         else (tokenizer_kwds, kwds'))"

section \<open>Data model\<close>

text \<open>
  \<^verbatim>\<open>openllm.LLMConfig\<close> is defined in \<^verbatim>\<open>_configuration\<close>; the record has the
  attributes of a configuration object that the modelled code reads.
\<close>

record llm_config =
  openllm_model_name :: string
  openllm_start_name :: string
  openllm_trust_remote_code :: bool
  pydantic_extra :: "kwargs option"
  use_half_precision :: bool
  retain_history :: bool

text \<open>A \<^verbatim>\<open>bentoml.Model\<close>: the handle of an artifact in the model store.\<close>

record bento_model =
  tag_of :: string
  custom_objects :: kwargs
  payload :: pyval

text \<open>
  An \<^verbatim>\<open>LLM\<close> instance. The three caches start from the class attributes
  \<^verbatim>\<open>__bentomodel__\<close>, \<^verbatim>\<open>__llm_model__\<close> and \<^verbatim>\<open>__llm_tokenizer__\<close>, which are \<^verbatim>\<open>None\<close>.
  \<open>history\<close> is \<open>None\<close> while the attribute does not exist (only
  \<^verbatim>\<open>ChatGLM.model_post_init\<close> creates it). \<open>inst_dict\<close> holds every other
  attribute that has been assigned.
\<close>

record llm =
  config :: llm_config
  self_pretrained :: string
  self_args :: "pyval list"
  self_kwargs :: kwargs
  bentomodel_cache :: "bento_model option"
  llm_model_cache :: pyval
  llm_tokenizer_cache :: pyval
  history :: "(string \<times> string) list option"
  inst_dict :: kwargs

text \<open>A class attribute that a subclass may leave without a value.\<close>

datatype 'a class_attr = Undefined | Defined 'a

text \<open>The calls that leave the process, in the order they are made.\<close>

datatype event =
    EvGenerateTags string
  | EvStoreGet string
  | EvStoreSave string
  | EvImportModel string
  | EvImportOverride string
  | EvAutoConfig string
  | EvModelFromPretrained string string
  | EvTokenizerFromPretrained string
  | EvLoadModel string "pyval list" kwargs
  | EvTorch string

record 'w machine =
  world :: 'w
  trace :: "event list"

text \<open>
  The external collaborators, over a world \<open>'w\<close> of their own: the bentoml model store,
  the transformers library, torch, and \<^verbatim>\<open>openllm.utils.generate_tags\<close>, which is not
  among the modelled sources. Each call returns a value or raises, and may change the
  world either way. With them comes one choice of the interpreter:
  \<open>duplicate_keyword k\<close> is the exception of a call that gives the keyword \<open>k\<close> twice
  while another exception is being handled, which is where \<^verbatim>\<open>_bentomodel\<close> calls the
  import routines. The language reference has \<^verbatim>\<open>TypeError\<close> there; CPython up to 3.11
  raises \<^verbatim>\<open>KeyError(k)\<close>.
\<close>

record 'w ext =
  generate_tags :: "string \<Rightarrow> string \<Rightarrow> pyval \<Rightarrow> kwargs \<Rightarrow> 'w \<Rightarrow> (error + string \<times> kwargs) \<times> 'w"
  store_get :: "string \<Rightarrow> 'w \<Rightarrow> (error + bento_model) \<times> 'w"
  save_model :: "string \<Rightarrow> pyval \<Rightarrow> kwargs \<Rightarrow> 'w \<Rightarrow> (error + bento_model) \<times> 'w"
  load_model :: "bento_model \<Rightarrow> pyval list \<Rightarrow> kwargs \<Rightarrow> 'w \<Rightarrow> (error + pyval) \<times> 'w"
  is_PretrainedConfig :: "pyval \<Rightarrow> bool"
  AutoConfig_from_pretrained :: "string \<Rightarrow> kwargs \<Rightarrow> 'w \<Rightarrow> (error + pyval \<times> kwargs) \<times> 'w"
  in_CAUSAL_LM_MAPPING :: "pyval \<Rightarrow> bool"
  in_SEQ_TO_SEQ_CAUSAL_LM_MAPPING :: "pyval \<Rightarrow> bool"
  model_from_pretrained :: "string \<Rightarrow> string \<Rightarrow> pyval list \<Rightarrow> kwargs \<Rightarrow> 'w \<Rightarrow> (error + pyval) \<times> 'w"
  AutoTokenizer_from_pretrained :: "string \<Rightarrow> kwargs \<Rightarrow> 'w \<Rightarrow> (error + pyval) \<times> 'w"
  cuda_is_available :: bool
  platform_system :: string
  torch_method :: "string \<Rightarrow> pyval \<Rightarrow> 'w \<Rightarrow> (error + pyval) \<times> 'w"
  torch_generate :: "pyval \<Rightarrow> pyval \<Rightarrow> string \<Rightarrow> llm_config \<Rightarrow> kwargs \<Rightarrow> 'w \<Rightarrow> (error + string) \<times> 'w"
  duplicate_keyword :: "string \<Rightarrow> error"

text \<open>
  A subclass may define \<^verbatim>\<open>import_model\<close>: the one of \<^verbatim>\<open>ChatGLM\<close>, or any other routine,
  which receives \<open>pretrained\<close>, \<open>tag\<close>, the positional arguments, \<open>tokenizer_kwds\<close> and
  the keyword arguments.
\<close>

datatype 'w import_override =
    ChatGLM_override
  | Custom_override
      "string \<Rightarrow> string \<Rightarrow> pyval list \<Rightarrow> kwargs \<Rightarrow> kwargs \<Rightarrow> 'w \<Rightarrow> (error + bento_model) \<times> 'w"

record 'w llm_class =
  cls_name :: string
  implementation :: framework
  default_model :: "string option class_attr"
  variants :: "string list"
  config_class :: "kwargs \<Rightarrow> error + llm_config"
  import_kwargs :: "kwargs option"
  import_model_attr :: "'w import_override option"

section \<open>Programs that raise and change state\<close>

type_synonym ('s, 'a) prog = "'s \<Rightarrow> (error + 'a) \<times> 's"

definition ret :: "'a \<Rightarrow> ('s, 'a) prog" where
  "ret x = (\<lambda>s. (Inr x, s))"

definition raise :: "error \<Rightarrow> ('s, 'a) prog" where
  "raise e = (\<lambda>s. (Inl e, s))"

definition bnd :: "('s, 'a) prog \<Rightarrow> ('a \<Rightarrow> ('s, 'b) prog) \<Rightarrow> ('s, 'b) prog" where
  "bnd m f = (\<lambda>s. case m s of (Inl e, s') \<Rightarrow> (Inl e, s') | (Inr x, s') \<Rightarrow> f x s')"

text \<open>\<^verbatim>\<open>try: m except E: h\<close>, where \<open>caught\<close> says which exceptions \<open>E\<close> matches.\<close>

definition try_except ::
  "('s, 'a) prog \<Rightarrow> (error \<Rightarrow> bool) \<Rightarrow> ('s, 'a) prog \<Rightarrow> ('s, 'a) prog" where
  "try_except m caught h =
     (\<lambda>s. case m s of
             (Inl e, s') \<Rightarrow> if caught e then h s' else (Inl e, s')
           | (Inr x, s') \<Rightarrow> (Inr x, s'))"

definition lift_result :: "error + 'a \<Rightarrow> ('s, 'a) prog" where
  "lift_result r = (case r of Inl e \<Rightarrow> raise e | Inr x \<Rightarrow> ret x)"

text \<open>Reading an attribute of \<open>self\<close>, assigning to one through \<^verbatim>\<open>__setattr__\<close>, and
  mutating an object that \<open>self\<close> refers to.\<close>

definition getattr :: "(llm \<Rightarrow> 'a) \<Rightarrow> (llm \<times> 'm, 'a) prog" where
  "getattr field = (\<lambda>(self, m). (Inr (field self), (self, m)))"

definition setattr :: "string \<Rightarrow> (llm \<Rightarrow> llm) \<Rightarrow> (llm \<times> 'm, unit) prog" where
  "setattr attr store =
     (\<lambda>(self, m). case own_setattr attr store self of
                     Inl e \<Rightarrow> (Inl e, (self, m))
                   | Inr self' \<Rightarrow> (Inr (), (self', m)))"

definition mutate :: "(llm \<Rightarrow> llm) \<Rightarrow> (llm \<times> 'm, unit) prog" where
  "mutate f = (\<lambda>(self, m). (Inr (), (f self, m)))"

text \<open>A call to an external collaborator, recorded in the trace.\<close>

definition extern :: "event \<Rightarrow> ('w \<Rightarrow> (error + 'a) \<times> 'w) \<Rightarrow> (llm \<times> 'w machine, 'a) prog" where
  "extern ev f =
     (\<lambda>(self, m). case f (world m) of
                     (r, w') \<Rightarrow> (r, (self, \<lparr>world = w', trace = trace m @ [ev]\<rparr>)))"

definition log_event :: "event \<Rightarrow> (llm \<times> 'w machine, unit) prog" where
  "log_event ev = (\<lambda>(self, m). (Inr (), (self, m\<lparr>trace := trace m @ [ev]\<rparr>)))"

section \<open>Construction (\<^verbatim>\<open>LLM.__init__\<close>)\<close>

text \<open>
  The guard of \<^verbatim>\<open>__setattr__\<close> on a name, for the assignments \<^verbatim>\<open>self.x = ...\<close> made
  while the instance is being built.
\<close>

definition init_setattr :: "string \<Rightarrow> ('s, unit) prog" where
  "init_setattr attr = lift_result (own_setattr attr (\<lambda>u. u) ())"

definition environ_key :: "llm_config \<Rightarrow> string" where
  "environ_key c = ''OPENLLM_'' @ upper (openllm_model_name c) @ ''_PRETRAINED''"

text \<open>
  \<^verbatim>\<open>assert self.default_model, "..."\<close> followed by \<^verbatim>\<open>pretrained = self.default_model\<close>.
  An \<^verbatim>\<open>assert\<close> statement, here and in \<open>init_config\<close>, is modelled as Python executes
  it by default; started with \<^verbatim>\<open>-O\<close>, Python executes no \<^verbatim>\<open>assert\<close> statement.
\<close>

definition static_default :: "'w llm_class \<Rightarrow> ('s, string) prog" where
  "static_default cls =
     (case default_model cls of
        Undefined \<Rightarrow> raise (AttributeError ''default_model'')
      | Defined None \<Rightarrow> raise (AssertionError ''A default model is required for any LLM.'')
      | Defined (Some d) \<Rightarrow>
          if d = [] then raise (AssertionError ''A default model is required for any LLM.'')
          else ret d)"

text \<open>The configuration of the instance and the keyword arguments it keeps.\<close>

definition init_config ::
  "'w llm_class \<Rightarrow> llm_config option \<Rightarrow> kwargs \<Rightarrow> ('s, llm_config \<times> kwargs) prog" where
  "init_config cls llm_config kwargs =
     (case llm_config of
        Some c \<Rightarrow> bnd (init_setattr ''config'') (\<lambda>_. ret (c, kwargs))
      | None \<Rightarrow>
          bnd (lift_result (config_class cls kwargs)) (\<lambda>c.
          bnd (init_setattr ''config'') (\<lambda>_.
          case pydantic_extra c of
            None \<Rightarrow> raise (AssertionError [])
          | Some extra \<Rightarrow> ret (c, extra))))"

text \<open>The name of the pretrained model: the argument, else the environment variable when
  it is set and not empty, else the static default.\<close>

definition init_pretrained ::
  "'w llm_class \<Rightarrow> (string \<times> string) list \<Rightarrow> llm_config \<Rightarrow> string option \<Rightarrow> ('s, string) prog" where
  "init_pretrained cls environ c pretrained =
     (case pretrained of
        Some p \<Rightarrow> ret p
      | None \<Rightarrow>
          (case map_of environ (environ_key c) of
             Some p \<Rightarrow> if p = [] then static_default cls else ret p
           | None \<Rightarrow> static_default cls))"

text \<open>The instance once \<^verbatim>\<open>__init__\<close> has assigned \<open>config\<close>, \<open>_pretrained\<close>, \<open>_args\<close> and
  \<open>_kwargs\<close>; the caches are the class attributes.\<close>

definition new_llm :: "llm_config \<Rightarrow> string \<Rightarrow> pyval list \<Rightarrow> kwargs \<Rightarrow> llm" where
  "new_llm c pretrained args kwargs =
     \<lparr>config = c, self_pretrained = pretrained, self_args = args, self_kwargs = kwargs,
      bentomodel_cache = None, llm_model_cache = PyNone, llm_tokenizer_cache = PyNone,
      history = None, inst_dict = []\<rparr>"

definition LLM_init ::
  "'w llm_class \<Rightarrow> (string \<times> string) list \<Rightarrow> string option \<Rightarrow> llm_config option \<Rightarrow>
   pyval list \<Rightarrow> kwargs \<Rightarrow> ('w machine, llm) prog" where
  "LLM_init cls environ pretrained llm_config args kwargs =
     bnd (init_config cls llm_config kwargs) (\<lambda>(c, kwargs').
     bnd (init_pretrained cls environ c pretrained) (\<lambda>pretrained'.
     bnd (init_setattr ''_pretrained'') (\<lambda>_.
     bnd (init_setattr ''_args'') (\<lambda>_.
     bnd (init_setattr ''_kwargs'') (\<lambda>_.
     ret (new_llm c pretrained' args kwargs'))))))"

section \<open>Importing a model (\<^verbatim>\<open>import_model\<close> and \<^verbatim>\<open>ChatGLM.import_model\<close>)\<close>

definition hub_kwds_names :: "string list" where
  "hub_kwds_names =
     [''cache_dir'', ''force_download'', ''local_files_only'', ''proxies'',
      ''resume_download'', ''revision'', ''subfolder'', ''use_auth_token'']"

text \<open>\<^verbatim>\<open>{k: kwds.pop(k) for k in hub_kwds_names if k in kwds}\<close>: the popped entries, in the
  order of \<open>hub_kwds_names\<close>, and what is left of \<open>kwds\<close>.\<close>

definition pop_hub_kwds :: "kwargs \<Rightarrow> kwargs \<times> kwargs" where
  "pop_hub_kwds kwds =
     (dict_of_items (concat (map (\<lambda>k. case map_of kwds k of None \<Rightarrow> [] | Some v \<Rightarrow> [(k, v)])
                                 hub_kwds_names)),
      filter (\<lambda>(k, v). k \<notin> set hub_kwds_names) kwds)"

text \<open>
  A call with keyword arguments \<open>explicit\<close> and \<^verbatim>\<open>**\<close>-expanded dictionaries \<open>starred\<close>,
  made while an exception is being handled: the keyword arguments received, or, when a
  name is given twice, the exception \<open>dup\<close> of the interpreter for the first such name.
\<close>

definition call_kwargs :: "(string \<Rightarrow> error) \<Rightarrow> kwargs \<Rightarrow> kwargs list \<Rightarrow> error + kwargs" where
  "call_kwargs dup explicit starred =
     (let given = explicit @ concat starred in
      case first_duplicate [] (map fst given) of
        None \<Rightarrow> Inr given
      | Some k \<Rightarrow> Inl (dup k))"

text \<open>The body of the module-level \<^verbatim>\<open>import_model\<close>, after its parameters are bound.\<close>

definition import_model ::
  "'w ext \<Rightarrow> string \<Rightarrow> string \<Rightarrow> framework \<Rightarrow> pyval list \<Rightarrow> kwargs \<Rightarrow> kwargs \<Rightarrow>
   (llm \<times> 'w machine, bento_model) prog" where
  "import_model ext model_name tag openllm_framework model_args tokenizer_kwds kwds =
     bnd (log_event (EvImportModel model_name)) (\<lambda>_.
     case dict_pop ''config'' PyNone kwds of (cfg, kwds1) \<Rightarrow>
     case dict_pop ''trust_remote_code'' (PyBool False) kwds1 of (trust_remote_code, kwds2) \<Rightarrow>
     case pop_hub_kwds kwds2 of (hub_kwds, kwds3) \<Rightarrow>
     bnd (if is_PretrainedConfig ext cfg then ret (cfg, kwds3)
          else
            (let copied_kwds =
                   (if map_of kwds3 ''torch_dtype'' = Some (PyStr ''auto'')
                    then AList.delete ''torch_dtype'' kwds3 else kwds3)
             in bnd (lift_result
                       (call_kwargs (duplicate_keyword ext)
                                    [(''return_unused_kwargs'', PyBool True),
                                     (''trust_remote_code'', trust_remote_code)]
                                    [hub_kwds, copied_kwds]))
                    (\<lambda>kw. extern (EvAutoConfig model_name)
                                  (AutoConfig_from_pretrained ext model_name kw))))
     (\<lambda>(cfg', kwds4).
     bnd (if in_CAUSAL_LM_MAPPING ext cfg' then ret ''text-generation''
          else if in_SEQ_TO_SEQ_CAUSAL_LM_MAPPING ext cfg' then ret ''text2text-generation''
          else raise (OpenLLMException ''Model type is not supported yet.''))
     (\<lambda>task_type.
     bnd (lift_result (TaskType_getitem task_type)) (\<lambda>task.
     bnd (lift_result (tuple_get (return_tensors_to_framework_map openllm_framework)
                                 (TaskType_value task - 1)))
     (\<lambda>auto_class.
     bnd (lift_result (call_kwargs (duplicate_keyword ext)
                                   [(''config'', cfg'), (''trust_remote_code'', trust_remote_code)]
                                   [hub_kwds, kwds4]))
     (\<lambda>model_kw.
     bnd (extern (EvModelFromPretrained auto_class model_name)
                 (model_from_pretrained ext auto_class model_name model_args model_kw))
     (\<lambda>model.
     bnd (lift_result (call_kwargs (duplicate_keyword ext)
                                   [(''config'', cfg'), (''trust_remote_code'', trust_remote_code)]
                                   [hub_kwds, tokenizer_kwds]))
     (\<lambda>tok_kw.
     bnd (extern (EvTokenizerFromPretrained model_name)
                 (AutoTokenizer_from_pretrained ext model_name tok_kw))
     (\<lambda>tok.
     extern (EvStoreSave tag) (save_model ext tag model [(''tokenizer'', tok)]))))))))))"

text \<open>
  The call of the default routine in \<^verbatim>\<open>_bentomodel\<close>:
  \<^verbatim>\<open>import_model(self._pretrained, tag, *self._args, tokenizer_kwds=..., trust_remote_code=...,
  __openllm_framework__=self._implementation, **kwds)\<close>
  against the signature \<^verbatim>\<open>(model_name, tag, __openllm_framework__, *model_args, tokenizer_kwds, **kwds)\<close>.
  A key of \<open>kwds\<close> that the call also gives by keyword stops the call where it is made,
  with the interpreter's exception for a keyword given twice. A positional argument
  after \<open>tag\<close> lands on \<^verbatim>\<open>__openllm_framework__\<close>, which the call also gives by keyword,
  and a key \<open>model_name\<close> or \<open>tag\<close> names a parameter that is given by position: the
  function refuses both with \<^verbatim>\<open>TypeError\<close>.
\<close>

definition call_import_model ::
  "'w ext \<Rightarrow> string \<Rightarrow> string \<Rightarrow> pyval list \<Rightarrow> kwargs \<Rightarrow> pyval \<Rightarrow> framework \<Rightarrow> kwargs \<Rightarrow>
   (llm \<times> 'w machine, bento_model) prog" where
  "call_import_model ext pretrained tag args tokenizer_kwds trust_remote_code impl kwds =
     (case kw_clash_name [''tokenizer_kwds'', ''trust_remote_code'', ''__openllm_framework__'']
                         kwds of
        Some k \<Rightarrow> raise (duplicate_keyword ext k)
      | None \<Rightarrow>
          if args \<noteq> [] \<or> kw_clash [''model_name'', ''tag''] kwds
          then raise (TypeError ''import_model() got multiple values for argument'')
          else import_model ext pretrained tag impl [] tokenizer_kwds
                 ((''trust_remote_code'', trust_remote_code) # kwds))"

text \<open>The body of \<^verbatim>\<open>ChatGLM.import_model\<close>; it does not use \<open>model_args\<close>.\<close>

definition ChatGLM_import_model ::
  "'w ext \<Rightarrow> string \<Rightarrow> string \<Rightarrow> pyval list \<Rightarrow> kwargs \<Rightarrow> kwargs \<Rightarrow>
   (llm \<times> 'w machine, bento_model) prog" where
  "ChatGLM_import_model ext pretrained tag model_args tokenizer_kwds kwds =
     bnd (log_event (EvImportOverride pretrained)) (\<lambda>_.
     bnd (lift_result (call_kwargs (duplicate_keyword ext)
                                   [(''trust_remote_code'', PyBool True)] [kwds])) (\<lambda>model_kw.
     bnd (extern (EvModelFromPretrained ''AutoModel'' pretrained)
                 (model_from_pretrained ext ''AutoModel'' pretrained [] model_kw))
     (\<lambda>model.
     bnd (lift_result (call_kwargs (duplicate_keyword ext)
                                   [(''trust_remote_code'', PyBool True)] [tokenizer_kwds]))
     (\<lambda>tok_kw.
     bnd (extern (EvTokenizerFromPretrained pretrained)
                 (AutoTokenizer_from_pretrained ext pretrained tok_kw))
     (\<lambda>tok.
     extern (EvStoreSave tag) (save_model ext tag model [(''tokenizer'', tok)]))))))"

text \<open>
  The call of a subclass routine in \<^verbatim>\<open>_bentomodel\<close>:
  \<^verbatim>\<open>self.import_model(self._pretrained, tag, *self._args, tokenizer_kwds=...,
  trust_remote_code=..., **kwds)\<close>. The routine receives \<open>trust_remote_code\<close> among its
  keyword arguments.
\<close>

definition call_override ::
  "'w ext \<Rightarrow> 'w import_override \<Rightarrow> string \<Rightarrow> string \<Rightarrow> pyval list \<Rightarrow> kwargs \<Rightarrow> pyval \<Rightarrow> kwargs \<Rightarrow>
   (llm \<times> 'w machine, bento_model) prog" where
  "call_override ext ov pretrained tag args tokenizer_kwds trust_remote_code kwds =
     (case kw_clash_name [''tokenizer_kwds'', ''trust_remote_code''] kwds of
        Some k \<Rightarrow> raise (duplicate_keyword ext k)
      | None \<Rightarrow>
        (case ov of
           ChatGLM_override \<Rightarrow>
             if kw_clash [''self'', ''pretrained'', ''tag''] kwds
             then raise (TypeError ''import_model() got multiple values for argument'')
             else ChatGLM_import_model ext pretrained tag args tokenizer_kwds
                    ((''trust_remote_code'', trust_remote_code) # kwds)
         | Custom_override f \<Rightarrow>
             bnd (log_event (EvImportOverride pretrained)) (\<lambda>_.
             (\<lambda>(self, m). case f pretrained tag args tokenizer_kwds
                                   ((''trust_remote_code'', trust_remote_code) # kwds) (world m) of
                             (r, w') \<Rightarrow> (r, (self, m\<lparr>world := w'\<rparr>))))))"

section \<open>The lazy accessors (\<^verbatim>\<open>_bentomodel\<close>, \<^verbatim>\<open>tag\<close>, \<^verbatim>\<open>model\<close>, \<^verbatim>\<open>tokenizer\<close>)\<close>

definition is_BentoMLException :: "error \<Rightarrow> bool" where
  "is_BentoMLException e = (case e of BentoMLException _ \<Rightarrow> True | _ \<Rightarrow> False)"

definition is_KeyError :: "error \<Rightarrow> bool" where
  "is_KeyError e = (case e of KeyError _ \<Rightarrow> True | _ \<Rightarrow> False)"

text \<open>\<^verbatim>\<open>self._kwargs.pop("trust_remote_code", self.config.__openllm_trust_remote_code__)\<close>:
  the dictionary that \<open>self._kwargs\<close> refers to is changed in place.\<close>

definition pop_trust_remote_code :: "(llm \<times> 'm, pyval) prog" where
  "pop_trust_remote_code =
     (\<lambda>(self, m).
        case dict_pop ''trust_remote_code'' (PyBool (openllm_trust_remote_code (config self)))
                      (self_kwargs self) of
          (v, kw) \<Rightarrow> (Inr v, (self\<lparr>self_kwargs := kw\<rparr>, m)))"

text \<open>\<^verbatim>\<open>generate_tags(self._pretrained, prefix=self._implementation, trust_remote_code=...,
  **self._kwargs)\<close>, which \<^verbatim>\<open>_bentomodel\<close> calls outside its exception handler: a keyword
  given twice is \<^verbatim>\<open>TypeError\<close>.\<close>

definition call_generate_tags ::
  "'w ext \<Rightarrow> string \<Rightarrow> framework \<Rightarrow> pyval \<Rightarrow> kwargs \<Rightarrow> (llm \<times> 'w machine, string \<times> kwargs) prog" where
  "call_generate_tags ext pretrained impl trust_remote_code kwargs =
     (if kw_clash [''prefix'', ''trust_remote_code''] kwargs
      then raise (TypeError ''got multiple values for keyword argument'')
      else extern (EvGenerateTags pretrained)
                  (generate_tags ext pretrained (framework_str impl) trust_remote_code kwargs))"

definition set_bentomodel :: "bento_model \<Rightarrow> (llm \<times> 'm, bento_model) prog" where
  "set_bentomodel b =
     bnd (setattr ''__bentomodel__'' (\<lambda>self. self\<lparr>bentomodel_cache := Some b\<rparr>)) (\<lambda>_. ret b)"

text \<open>
  The first part of the property \<^verbatim>\<open>_bentomodel\<close>: popping \<open>trust_remote_code\<close>, the
  tag, and the two dictionaries of keyword parameters.
\<close>

definition resolve_tag ::
  "'w llm_class \<Rightarrow> 'w ext \<Rightarrow> (llm \<times> 'w machine, string \<times> kwargs \<times> kwargs \<times> pyval) prog" where
  "resolve_tag cls ext =
     bnd pop_trust_remote_code (\<lambda>trust_remote_code.
     bnd (getattr self_pretrained) (\<lambda>pretrained.
     bnd (getattr self_kwargs) (\<lambda>kwargs.
     bnd (call_generate_tags ext pretrained (implementation cls) trust_remote_code kwargs)
     (\<lambda>(tag, kwds0).
     case split_kwds (import_kwargs cls) kwds0 of
       (tokenizer_kwds, kwds) \<Rightarrow> ret (tag, tokenizer_kwds, kwds, trust_remote_code)))))"

text \<open>
  The property \<^verbatim>\<open>_bentomodel\<close>. The store and the import routines return a
  \<^verbatim>\<open>bentoml.Model\<close>, so the final \<^verbatim>\<open>return self.__bentomodel__\<close> returns the handle that
  was just assigned.
\<close>

definition LLM_bentomodel :: "'w llm_class \<Rightarrow> 'w ext \<Rightarrow> (llm \<times> 'w machine, bento_model) prog" where
  "LLM_bentomodel cls ext =
     bnd (getattr bentomodel_cache) (\<lambda>cached.
     case cached of
       Some b \<Rightarrow> ret b
     | None \<Rightarrow>
         bnd (resolve_tag cls ext) (\<lambda>(tag, tokenizer_kwds, kwds, trust_remote_code).
         try_except
           (bnd (extern (EvStoreGet tag) (store_get ext tag)) set_bentomodel)
           is_BentoMLException
           (bnd (getattr self_pretrained) (\<lambda>pretrained.
            bnd (getattr self_args) (\<lambda>args.
            bnd (case import_model_attr cls of
                   Some ov \<Rightarrow>
                     call_override ext ov pretrained tag args tokenizer_kwds trust_remote_code kwds
                 | None \<Rightarrow>
                     call_import_model ext pretrained tag args tokenizer_kwds trust_remote_code
                       (implementation cls) kwds)
                set_bentomodel)))))"

definition LLM_tag :: "'w llm_class \<Rightarrow> 'w ext \<Rightarrow> (llm \<times> 'w machine, string) prog" where
  "LLM_tag cls ext = bnd (LLM_bentomodel cls ext) (\<lambda>b. ret (tag_of b))"

definition LLM_model :: "'w llm_class \<Rightarrow> 'w ext \<Rightarrow> (llm \<times> 'w machine, pyval) prog" where
  "LLM_model cls ext =
     bnd (getattr llm_model_cache) (\<lambda>cached.
     if cached = PyNone
     then bnd (LLM_bentomodel cls ext) (\<lambda>b.
          bnd (getattr self_args) (\<lambda>args.
          bnd (getattr self_kwargs) (\<lambda>kwargs.
          bnd (extern (EvLoadModel (tag_of b) args kwargs) (load_model ext b args kwargs)) (\<lambda>m.
          bnd (setattr ''__llm_model__'' (\<lambda>self. self\<lparr>llm_model_cache := m\<rparr>)) (\<lambda>_.
          ret m)))))
     else ret cached)"

definition no_tokenizer_message :: string where
  "no_tokenizer_message = ''Model does not have tokenizer.''"

definition LLM_tokenizer :: "'w llm_class \<Rightarrow> 'w ext \<Rightarrow> (llm \<times> 'w machine, pyval) prog" where
  "LLM_tokenizer cls ext =
     bnd (getattr llm_tokenizer_cache) (\<lambda>cached.
     if cached = PyNone
     then try_except
            (bnd (LLM_bentomodel cls ext) (\<lambda>b.
             case map_of (custom_objects b) ''tokenizer'' of
               None \<Rightarrow> raise (KeyError ''tokenizer'')
             | Some tok \<Rightarrow>
                 bnd (setattr ''__llm_tokenizer__'' (\<lambda>self. self\<lparr>llm_tokenizer_cache := tok\<rparr>))
                     (\<lambda>_. ret tok)))
            is_KeyError
            (raise (OpenLLMException no_tokenizer_message))
     else ret cached)"

section \<open>Building a runner (\<^verbatim>\<open>LLM.to_runner\<close>)\<close>

text \<open>
  Modelled from the spec: \<^verbatim>\<open>ModelSignature\<close> and \<^verbatim>\<open>ModelSignatureDict\<close> of
  \<^verbatim>\<open>_configuration\<close>, which is not among the modelled sources. A method contract has a
  batchable flag, a batch dimension and input and output specifications; a
  \<^verbatim>\<open>ModelSignatureDict\<close> gives any of them; \<^verbatim>\<open>from_dict\<close> keeps the entries given and
  takes the others from the defaults \<open>dflt\<close>; \<^verbatim>\<open>convert_signatures_dict\<close> turns every
  value of a dictionary of method configs into a contract.
\<close>

record model_signature =
  batchable :: bool
  batch_dim :: "nat \<times> nat"
  input_spec :: pyval
  output_spec :: pyval

record model_signature_dict =
  d_batchable :: "bool option"
  d_batch_dim :: "(nat \<times> nat) option"
  d_input_spec :: "pyval option"
  d_output_spec :: "pyval option"

definition from_dict :: "model_signature \<Rightarrow> model_signature_dict \<Rightarrow> model_signature" where
  "from_dict dflt d =
     \<lparr>batchable = (case d_batchable d of None \<Rightarrow> batchable dflt | Some b \<Rightarrow> b),
      batch_dim = (case d_batch_dim d of None \<Rightarrow> batch_dim dflt | Some b \<Rightarrow> b),
      input_spec = (case d_input_spec d of None \<Rightarrow> input_spec dflt | Some b \<Rightarrow> b),
      output_spec = (case d_output_spec d of None \<Rightarrow> output_spec dflt | Some b \<Rightarrow> b)\<rparr>"

type_synonym method_configs = "(string \<times> (model_signature_dict + model_signature)) list"

definition convert_signatures_dict ::
  "model_signature \<Rightarrow> method_configs \<Rightarrow> (string \<times> model_signature) list" where
  "convert_signatures_dict dflt mc =
     map (\<lambda>(k, v). (k, case v of Inl d \<Rightarrow> from_dict dflt d | Inr sg \<Rightarrow> sg)) mc"

text \<open>\<^verbatim>\<open>ModelSignatureDict(batchable=b)\<close>.\<close>

definition signature_dict_batchable :: "bool \<Rightarrow> model_signature_dict" where
  "signature_dict_batchable b =
     \<lparr>d_batchable = Some b, d_batch_dim = None, d_input_spec = None, d_output_spec = None\<rparr>"

text \<open>\<^verbatim>\<open>d.get(k, default)\<close>.\<close>

definition dict_get :: "('k \<times> 'v) list \<Rightarrow> 'k \<Rightarrow> 'v \<Rightarrow> 'v" where
  "dict_get d k dflt = (case map_of d k of None \<Rightarrow> dflt | Some v \<Rightarrow> v)"

text \<open>What \<^verbatim>\<open>bentoml.Runner\<close> is given, with the contracts of the two methods of the
  \<^verbatim>\<open>_Runnable\<close> class.\<close>

record runner =
  runnable_name :: string
  generate_contract :: model_signature
  generate_iterator_contract :: model_signature
  runnable_init_params :: kwargs
  runner_name :: string
  runner_models :: "bento_model list"
  runner_max_batch_size :: "int option"
  runner_max_latency_ms :: "int option"
  runner_method_configs :: method_configs
  runner_embedded :: bool
  runner_scheduling_strategy :: string

definition LLM_to_runner ::
  "'w llm_class \<Rightarrow> 'w ext \<Rightarrow> model_signature \<Rightarrow> (string \<Rightarrow> string) \<Rightarrow>
   string option \<Rightarrow> bento_model list option \<Rightarrow> int option \<Rightarrow> int option \<Rightarrow>
   method_configs option \<Rightarrow> bool \<Rightarrow> string option \<Rightarrow> kwargs \<Rightarrow>
   (llm \<times> 'w machine, runner) prog" where
  "LLM_to_runner cls ext dflt camelize name models max_batch_size max_latency_ms method_configs
             embedded scheduling_strategy kwargs =
     bnd (case name of
            None \<Rightarrow> bnd (getattr config) (\<lambda>c. ret (''llm-'' @ openllm_start_name c @ ''-runner''))
          | Some n \<Rightarrow> ret n)
     (\<lambda>name'.
     let models' = (case models of None \<Rightarrow> [] | Some ms \<Rightarrow> ms) in
     bnd (LLM_bentomodel cls ext) (\<lambda>b.
     let models'' = models' @ [b];
         scheduling_strategy' =
           (case scheduling_strategy of None \<Rightarrow> ''DefaultStrategy'' | Some st \<Rightarrow> st);
         generate_sig = from_dict dflt (signature_dict_batchable False);
         generate_iterator_sig = from_dict dflt (signature_dict_batchable True)
     in
     case (case method_configs of
             None \<Rightarrow>
               ([(''generate'', Inr generate_sig), (''generate_iterator'', Inr generate_iterator_sig)],
                generate_sig, generate_iterator_sig)
           | Some mc \<Rightarrow>
               (mc,
                dict_get (convert_signatures_dict dflt mc) ''generate'' generate_sig,
                dict_get (convert_signatures_dict dflt mc) ''generate_iterator''
                         generate_iterator_sig))
     of (method_configs', generate_sig', generate_iterator_sig') \<Rightarrow>
     bnd (getattr config) (\<lambda>c.
     ret \<lparr>runnable_name = camelize (openllm_model_name c) @ ''Runnable'',
          generate_contract = generate_sig',
          generate_iterator_contract = generate_iterator_sig',
          runnable_init_params = kwargs,
          runner_name = name',
          runner_models = models'',
          runner_max_batch_size = max_batch_size,
          runner_max_latency_ms = max_latency_ms,
          runner_method_configs = method_configs',
          runner_embedded = embedded,
          runner_scheduling_strategy = scheduling_strategy'\<rparr>)))"

section \<open>\<^verbatim>\<open>ChatGLM.generate\<close>\<close>

fun str_nat :: "nat \<Rightarrow> string" where
  "str_nat n =
     (if n < 10 then [''0123456789'' ! n] else str_nat (n div 10) @ [''0123456789'' ! (n mod 10)])"

text \<open>The UTF-8 bytes of the two labels of a round, each followed by a full-width colon.\<close>

definition label_query :: string where
  "label_query = map char_of [233, 151, 174, 239, 188, 154 :: nat]"

definition label_answer :: string where
  "label_answer = map char_of [231, 173, 148, 239, 188, 154 :: nat]"

definition round_head :: "nat \<Rightarrow> string \<Rightarrow> string" where
  "round_head i query =
     ''[Round '' @ str_nat i @ '']'' @ [CHR 0x0A] @ label_query @ query @ [CHR 0x0A] @ label_answer"

fun history_text :: "nat \<Rightarrow> (string \<times> string) list \<Rightarrow> string" where
  "history_text i [] = []"
| "history_text i ((old_query, response) # rest) =
     round_head i old_query @ response @ [CHR 0x0A] @ history_text (Suc i) rest"

text \<open>\<^verbatim>\<open>self.model = self.model.<method>()\<close>.\<close>

definition assign_model ::
  "'w llm_class \<Rightarrow> 'w ext \<Rightarrow> string \<Rightarrow> (llm \<times> 'w machine, unit) prog" where
  "assign_model cls ext method =
     bnd (LLM_model cls ext) (\<lambda>m.
     bnd (extern (EvTorch method) (torch_method ext method m)) (\<lambda>m'.
     setattr ''model'' (\<lambda>self. self\<lparr>inst_dict := AList.update ''model'' m' (inst_dict self)\<rparr>)))"

text \<open>
  Tokenizing the prompt, generating, decoding and post-processing the response belong to
  the model backend; \<open>torch_generate\<close> stands for them. \<open>options\<close> are the generation
  options of the call (\<^verbatim>\<open>max_length\<close>, \<^verbatim>\<open>num_beams\<close>, \<^verbatim>\<open>top_p\<close>, \<^verbatim>\<open>temperature\<close> and the
  other keyword arguments).
\<close>

definition ChatGLM_generate ::
  "'w llm_class \<Rightarrow> 'w ext \<Rightarrow> string \<Rightarrow> kwargs \<Rightarrow>
   (llm \<times> 'w machine, (string \<times> string) list) prog" where
  "ChatGLM_generate cls ext prompt options =
     bnd (if cuda_is_available ext
          then bnd (getattr config) (\<lambda>c.
               bnd (if use_half_precision c then assign_model cls ext ''half'' else ret ()) (\<lambda>_.
               assign_model cls ext ''cuda''))
          else assign_model cls ext ''float'')
     (\<lambda>_.
     bnd (if platform_system ext = ''Darwin'' then assign_model cls ext ''to'' else ret ()) (\<lambda>_.
     bnd (LLM_model cls ext) (\<lambda>m.
     bnd (extern (EvTorch ''eval'') (torch_method ext ''eval'' m)) (\<lambda>_.
     bnd (getattr history) (\<lambda>h.
     case h of
       None \<Rightarrow> raise (AttributeError ''history'')
     | Some hist \<Rightarrow>
         (let prompt_text = history_text 0 hist @ round_head (length hist) prompt in
          bnd (LLM_tokenizer cls ext) (\<lambda>tok.
          bnd (LLM_model cls ext) (\<lambda>m'.
          bnd (getattr config) (\<lambda>c.
          bnd (extern (EvTorch ''generate'') (torch_generate ext tok m' prompt_text c options)) (\<lambda>response.
          bnd (if retain_history c
               then mutate (\<lambda>self. self\<lparr>history := Some (hist @ [(prompt, response)])\<rparr>)
               else ret ())
          (\<lambda>_.
          bnd (getattr history) (\<lambda>h'.
          case h' of None \<Rightarrow> raise (AttributeError ''history'') | Some out \<Rightarrow> ret out))))))))))))"

section \<open>Reading the trace\<close>

fun is_store_get :: "event \<Rightarrow> bool" where
  "is_store_get (EvStoreGet _) = True"
| "is_store_get _ = False"

fun is_store_save :: "event \<Rightarrow> bool" where
  "is_store_save (EvStoreSave _) = True"
| "is_store_save _ = False"

fun is_import :: "event \<Rightarrow> bool" where
  "is_import (EvImportModel _) = True"
| "is_import (EvImportOverride _) = True"
| "is_import _ = False"

definition count_events :: "(event \<Rightarrow> bool) \<Rightarrow> event list \<Rightarrow> nat" where
  "count_events p evs = length (filter p evs)"

text \<open>
  What \<^verbatim>\<open>bentoml.transformers.get\<close> reports in a resolution that starts in state \<open>s\<close>;
  \<open>None\<close> when the resolution raises before it reaches the store.
\<close>

definition lookup_outcome ::
  "'w llm_class \<Rightarrow> 'w ext \<Rightarrow> llm \<times> 'w machine \<Rightarrow> (error + bento_model) option" where
  "lookup_outcome cls ext s =
     (case resolve_tag cls ext s of
        (Inl e, s0) \<Rightarrow> None
      | (Inr (tag, rest), s0) \<Rightarrow> Some (fst (store_get ext tag (world (snd s0)))))"

definition is_miss :: "(error + bento_model) option \<Rightarrow> bool" where
  "is_miss r = (case r of Some (Inl e) \<Rightarrow> is_BentoMLException e | _ \<Rightarrow> False)"

definition is_hit :: "(error + bento_model) option \<Rightarrow> bool" where
  "is_hit r = (case r of Some (Inr b) \<Rightarrow> True | _ \<Rightarrow> False)"

section \<open>An in-memory store and backend\<close>

text \<open>
  Collaborators small enough to run: the store is an association list from tags to
  handles, the hub knows one configuration object \<open>hub_cfg\<close> for every model name, and
  \<open>PyObj 1\<close> and \<open>PyObj 2\<close> are the configuration objects of a causal and of a
  sequence-to-sequence model. The interpreter is a CPython up to 3.11.
\<close>

type_synonym mem_store = "(string \<times> bento_model) list"

definition mem_ext :: "pyval \<Rightarrow> mem_store ext" where
  "mem_ext hub_cfg =
     \<lparr>generate_tags = (\<lambda>name prefix trc kw w. (Inr (prefix @ ''-'' @ name, kw), w)),
      store_get = (\<lambda>t w. case map_of w t of
                            None \<Rightarrow> (Inl (BentoMLException ''not found''), w)
                          | Some b \<Rightarrow> (Inr b, w)),
      save_model = (\<lambda>t m co w.
                      (Inr \<lparr>tag_of = t, custom_objects = co, payload = m\<rparr>,
                       AList.update t \<lparr>tag_of = t, custom_objects = co, payload = m\<rparr> w)),
      load_model = (\<lambda>b args kw w. (Inr (payload b), w)),
      is_PretrainedConfig = (\<lambda>v. False),
      AutoConfig_from_pretrained =
        (\<lambda>name kw w.
           (Inr (hub_cfg,
                 filter (\<lambda>(k, v). k \<notin> set ([''return_unused_kwargs'', ''trust_remote_code'']
                                               @ hub_kwds_names)) kw), w)),
      in_CAUSAL_LM_MAPPING = (\<lambda>v. v = PyObj 1),
      in_SEQ_TO_SEQ_CAUSAL_LM_MAPPING = (\<lambda>v. v = PyObj 2),
      model_from_pretrained = (\<lambda>c name args kw w. (Inr (PyObj 10), w)),
      AutoTokenizer_from_pretrained = (\<lambda>name kw w. (Inr (PyObj 11), w)),
      cuda_is_available = False,
      platform_system = ''Linux'',
      torch_method = (\<lambda>name m w. (Inr m, w)),
      torch_generate = (\<lambda>tok m text c opts w. (Inr ''ok'', w)),
      duplicate_keyword = KeyError\<rparr>"

definition demo_config :: llm_config where
  "demo_config =
     \<lparr>openllm_model_name = ''flan_t5'', openllm_start_name = ''flan-t5'',
      openllm_trust_remote_code = False, pydantic_extra = Some [],
      use_half_precision = True, retain_history = True\<rparr>"

definition demo_class :: "mem_store llm_class" where
  "demo_class =
     \<lparr>cls_name = ''FlanT5'', implementation = pt,
      default_model = Defined (Some ''google/flan-t5-large''),
      variants = [''google/flan-t5-small'', ''google/flan-t5-large''],
      config_class = (\<lambda>kw. Inr (demo_config\<lparr>pydantic_extra := Some kw\<rparr>)),
      import_kwargs = None, import_model_attr = None\<rparr>"

definition chatglm_config :: llm_config where
  "chatglm_config =
     \<lparr>openllm_model_name = ''chatglm'', openllm_start_name = ''chatglm'',
      openllm_trust_remote_code = True, pydantic_extra = Some [],
      use_half_precision = True, retain_history = False\<rparr>"

text \<open>The class \<^verbatim>\<open>ChatGLM\<close>, with the attributes its source gives it.\<close>

definition ChatGLM :: "(kwargs \<Rightarrow> error + llm_config) \<Rightarrow> 'w llm_class" where
  "ChatGLM cfg_class =
     \<lparr>cls_name = ''ChatGLM'', implementation = pt,
      default_model = Defined (Some ''THUDM/chatglm-6b-int4''),
      variants = [''THUDM/chatglm-6b'', ''THUDM/chatglm-6b-int8'', ''THUDM/chatglm-6b-int4''],
      config_class = cfg_class,
      import_kwargs = None, import_model_attr = Some ChatGLM_override\<rparr>"

definition demo_kwargs :: kwargs where
  "demo_kwargs =
     [(''trust_remote_code'', PyBool True), (''_tokenizer_padding_side'', PyStr ''left''),
      (''device_map'', PyStr ''auto'')]"

definition demo_llm :: llm where
  "demo_llm = new_llm demo_config ''google/flan-t5-large'' [] demo_kwargs"

definition empty_machine :: "mem_store machine" where
  "empty_machine = \<lparr>world = [], trace = []\<rparr>"

text \<open>An artifact that was saved without a tokenizer, and a store that holds it.\<close>

definition demo_artifact :: bento_model where
  "demo_artifact = \<lparr>tag_of = ''pt-google/flan-t5-large'', custom_objects = [], payload = PyObj 10\<rparr>"

definition stocked_machine :: "mem_store machine" where
  "stocked_machine = \<lparr>world = [(''pt-google/flan-t5-large'', demo_artifact)], trace = []\<rparr>"

text \<open>The artifact that the default import routine saves for \<open>demo_llm\<close>.\<close>

definition demo_imported :: bento_model where
  "demo_imported =
     \<lparr>tag_of = ''pt-google/flan-t5-large'', custom_objects = [(''tokenizer'', PyObj 11)],
      payload = PyObj 10\<rparr>"

text \<open>A \<^verbatim>\<open>ChatGLM\<close> instance, and a store that already holds its artifact.\<close>

definition chatglm_config_class :: "kwargs \<Rightarrow> error + llm_config" where
  "chatglm_config_class kw = Inr (chatglm_config\<lparr>pydantic_extra := Some kw\<rparr>)"

definition chatglm_llm :: llm where
  "chatglm_llm = new_llm chatglm_config ''THUDM/chatglm-6b-int4'' [] []"

definition chatglm_machine :: "mem_store machine" where
  "chatglm_machine =
     \<lparr>world = [(''pt-THUDM/chatglm-6b-int4'',
                 \<lparr>tag_of = ''pt-THUDM/chatglm-6b-int4'',
                  custom_objects = [(''tokenizer'', PyObj 11)], payload = PyObj 10\<rparr>)],
      trace = []\<rparr>"

text \<open>The same collaborators with a \<^verbatim>\<open>load_model\<close> that raises.\<close>

definition failing_load_ext :: "mem_store ext" where
  "failing_load_ext =
     (mem_ext (PyObj 1))\<lparr>load_model := (\<lambda>b args kw w. (Inl (BackendError ''load failed''), w))\<rparr>"

text \<open>An instance dictionary as \<^verbatim>\<open>__init__\<close> leaves it, its objects known by identity.\<close>

definition demo_dict :: kwargs where
  "demo_dict =
     [(''config'', PyObj 20), (''_pretrained'', PyStr ''google/flan-t5-large''),
      (''_args'', PyObj 21), (''_kwargs'', PyDict [(''device_map'', PyStr ''auto'')])]"

text \<open>Defaults of a method contract, for running \<open>LLM_to_runner\<close>.\<close>

definition default_signature :: model_signature where
  "default_signature =
     \<lparr>batchable = False, batch_dim = (0, 0), input_spec = PyNone, output_spec = PyNone\<rparr>"

section \<open>Programs: evaluation rules\<close>

lemma ret_apply [simp]: "ret x s = (Inr x, s)"
  by (simp add: ret_def)

lemma raise_apply [simp]: "raise e s = (Inl e, s)"
  by (simp add: raise_def)

lemma bnd_apply:
  "bnd m f s = (case m s of (Inl e, s') \<Rightarrow> (Inl e, s') | (Inr x, s') \<Rightarrow> f x s')"
  by (simp add: bnd_def)

lemma bnd_Inl [simp]: "m s = (Inl e, s') \<Longrightarrow> bnd m f s = (Inl e, s')"
  by (simp add: bnd_def)

lemma bnd_Inr [simp]: "m s = (Inr x, s') \<Longrightarrow> bnd m f s = f x s'"
  by (simp add: bnd_def)

lemma lift_result_apply [simp]:
  "lift_result (Inl e) s = (Inl e, s)" "lift_result (Inr x) s = (Inr x, s)"
  by (simp_all add: lift_result_def)

section \<open>Attribute assignment\<close>

lemma own_setattr_plain:
  "attr \<notin> reserved_namespace \<Longrightarrow> data_descriptor LLM_properties attr = None \<Longrightarrow>
   own_setattr attr store self = Inr (store self)"
  by (simp add: own_setattr_def LLM_setattr_def)

lemma own_names:
  "data_descriptor LLM_properties ''config'' = None"
  "data_descriptor LLM_properties ''_pretrained'' = None"
  "data_descriptor LLM_properties ''_args'' = None"
  "data_descriptor LLM_properties ''_kwargs'' = None"
  "data_descriptor LLM_properties ''__bentomodel__'' = None"
  "data_descriptor LLM_properties ''__llm_model__'' = None"
  "data_descriptor LLM_properties ''__llm_tokenizer__'' = None"
  by (simp_all add: data_descriptor_def LLM_properties_def)

lemma init_names [simp]:
  "init_setattr ''config'' s = (Inr (), s)"
  "init_setattr ''_pretrained'' s = (Inr (), s)"
  "init_setattr ''_args'' s = (Inr (), s)"
  "init_setattr ''_kwargs'' s = (Inr (), s)"
  by (simp_all add: init_setattr_def own_setattr_plain own_names reserved_namespace_def)

lemma object_setattr_cases:
  "object_setattr props attr v d =
     (if attr \<in> set props then Inl (AttributeError attr)
      else if attr = ''__class__'' then Inl (TypeError attr)
      else if attr = ''__dict__'' then (case v of PyDict d' \<Rightarrow> Inr d' | _ \<Rightarrow> Inl (TypeError attr))
      else if attr = ''__weakref__'' then Inl (AttributeError attr)
      else Inr (AList.update attr v d))"
  by (simp add: object_setattr_def data_descriptor_def)

text \<open>The assignments on the record and on the instance dictionary pass the same guard and
  the same descriptors.\<close>

lemma own_setattr_agrees:
  assumes "attr \<noteq> ''__dict__''"
  shows "(case LLM_assign [] attr v d of
            Inl e \<Rightarrow> own_setattr attr store self = Inl e
          | Inr d' \<Rightarrow> own_setattr attr store self = Inr (store self))"
  using assms
  by (simp add: LLM_assign_def own_setattr_def LLM_setattr_def object_setattr_def
                data_descriptor_def)

text \<open>
  C5 (as amended). An assignment to a name of the reserved set raises
  \<^verbatim>\<open>ForbiddenAttributeError\<close>. An assignment to any other name ends as
  \<^verbatim>\<open>object.__setattr__\<close> does: with \<^verbatim>\<open>AttributeError\<close> for a property without setter
  (\<open>llm_type\<close>, \<open>identifying_params\<close>, \<open>_bentomodel\<close>, \<open>tag\<close> and those that a subclass
  declares) and for \<^verbatim>\<open>__weakref__\<close>, with \<^verbatim>\<open>TypeError\<close> for \<^verbatim>\<open>__class__\<close> and for
  \<^verbatim>\<open>__dict__\<close> given a value that is not a dictionary, while a dictionary given to
  \<^verbatim>\<open>__dict__\<close> becomes the instance dictionary. Under every other name the value is
  stored: the instance dictionary then has the value under that name and, under
  every other name, what it had.
\<close>

theorem LLM_assign_cases:
  "LLM_assign subclass_props attr v d =
     (if attr \<in> reserved_namespace then Inl (ForbiddenAttributeError attr)
      else if attr \<in> {''llm_type'', ''identifying_params'', ''_bentomodel'', ''tag''}
                     \<union> set subclass_props
      then Inl (AttributeError attr)
      else if attr = ''__class__'' then Inl (TypeError attr)
      else if attr = ''__dict__''
      then (case v of PyDict d' \<Rightarrow> Inr d' | _ \<Rightarrow> Inl (TypeError attr))
      else if attr = ''__weakref__'' then Inl (AttributeError attr)
      else Inr (AList.update attr v d))
   \<and> (\<forall>d'. LLM_assign subclass_props attr v d = Inr d' \<longrightarrow> attr \<noteq> ''__dict__'' \<longrightarrow>
          map_of d' attr = Some v \<and> (\<forall>k. k \<noteq> attr \<longrightarrow> map_of d' k = map_of d k))"
proof
  show eq: "LLM_assign subclass_props attr v d =
     (if attr \<in> reserved_namespace then Inl (ForbiddenAttributeError attr)
      else if attr \<in> {''llm_type'', ''identifying_params'', ''_bentomodel'', ''tag''}
                     \<union> set subclass_props
      then Inl (AttributeError attr)
      else if attr = ''__class__'' then Inl (TypeError attr)
      else if attr = ''__dict__''
      then (case v of PyDict d' \<Rightarrow> Inr d' | _ \<Rightarrow> Inl (TypeError attr))
      else if attr = ''__weakref__'' then Inl (AttributeError attr)
      else Inr (AList.update attr v d))"
  proof (cases "attr \<in> reserved_namespace")
    case True
    then show ?thesis by (simp add: LLM_assign_def LLM_setattr_def)
  next
    case False
    then have "attr \<noteq> ''model''" "attr \<noteq> ''tokenizer''"
      by (auto simp: reserved_namespace_def)
    then have "attr \<in> set (LLM_properties @ subclass_props) \<longleftrightarrow>
               attr \<in> {''llm_type'', ''identifying_params'', ''_bentomodel'', ''tag''}
                       \<union> set subclass_props"
      by (auto simp: LLM_properties_def)
    then show ?thesis
      using False by (simp add: LLM_assign_def LLM_setattr_def object_setattr_cases)
  qed
  show "\<forall>d'. LLM_assign subclass_props attr v d = Inr d' \<longrightarrow> attr \<noteq> ''__dict__'' \<longrightarrow>
          map_of d' attr = Some v \<and> (\<forall>k. k \<noteq> attr \<longrightarrow> map_of d' k = map_of d k)"
  proof (intro allI impI)
    fix d'
    assume r: "LLM_assign subclass_props attr v d = Inr d'" and nd: "attr \<noteq> ''__dict__''"
    have "d' = AList.update attr v d"
      using r nd unfolding eq by (simp split: if_splits)
    then show "map_of d' attr = Some v \<and> (\<forall>k. k \<noteq> attr \<longrightarrow> map_of d' k = map_of d k)"
      by (simp add: update_conv')
  qed
qed

theorem LLM_assign_cases_witness:
  "LLM_assign [] ''model'' (PyObj 7) demo_dict = Inl (ForbiddenAttributeError ''model'')
   \<and> LLM_assign [] ''__class__'' (PyObj 7) demo_dict = Inl (TypeError ''__class__'')
   \<and> LLM_assign [] ''__weakref__'' (PyObj 7) demo_dict = Inl (AttributeError ''__weakref__'')
   \<and> LLM_assign [''context_length''] ''context_length'' (PyObj 7) demo_dict
       = Inl (AttributeError ''context_length'')
   \<and> LLM_assign [] ''history'' (PyObj 7) demo_dict = Inr (demo_dict @ [(''history'', PyObj 7)])
   \<and> map_of (demo_dict @ [(''history'', PyObj 7)]) ''history'' = Some (PyObj 7)
   \<and> map_of (demo_dict @ [(''history'', PyObj 7)]) ''_pretrained''
       = Some (PyStr ''google/flan-t5-large'')"
proof -
  have r: "''model'' \<in> reserved_namespace" "''__class__'' \<notin> reserved_namespace"
      "''__weakref__'' \<notin> reserved_namespace" "''context_length'' \<notin> reserved_namespace"
      "''history'' \<notin> reserved_namespace"
    by (simp_all add: reserved_namespace_def)
  have u: "AList.update ''history'' (PyObj 7) demo_dict = demo_dict @ [(''history'', PyObj 7)]"
    by (simp add: demo_dict_def)
  have h: "LLM_assign [] ''history'' (PyObj 7) demo_dict = Inr (demo_dict @ [(''history'', PyObj 7)])"
    using LLM_assign_cases [of "[]" "''history''" "PyObj 7" demo_dict] r u by simp
  have rd: "map_of (demo_dict @ [(''history'', PyObj 7)]) ''history'' = Some (PyObj 7)"
    using conjunct2 [OF LLM_assign_cases [of "[]" "''history''" "PyObj 7" demo_dict],
                     rule_format, OF h]
    by simp
  have ot: "map_of (demo_dict @ [(''history'', PyObj 7)]) ''_pretrained''
              = Some (PyStr ''google/flan-t5-large'')"
    by (simp add: demo_dict_def)
  have m: "LLM_assign [] ''model'' (PyObj 7) demo_dict = Inl (ForbiddenAttributeError ''model'')"
    using LLM_assign_cases [of "[]" "''model''" "PyObj 7" demo_dict] r by simp
  have c: "LLM_assign [] ''__class__'' (PyObj 7) demo_dict = Inl (TypeError ''__class__'')"
    using LLM_assign_cases [of "[]" "''__class__''" "PyObj 7" demo_dict] r by simp
  have w: "LLM_assign [] ''__weakref__'' (PyObj 7) demo_dict = Inl (AttributeError ''__weakref__'')"
    using LLM_assign_cases [of "[]" "''__weakref__''" "PyObj 7" demo_dict] r by simp
  have d: "LLM_assign [''context_length''] ''context_length'' (PyObj 7) demo_dict
             = Inl (AttributeError ''context_length'')"
    using LLM_assign_cases [of "[''context_length'']" "''context_length''" "PyObj 7" demo_dict] r
    by simp
  show ?thesis
    using m c w d h rd ot by (intro conjI)
qed

text \<open>
  C5 as stated fails: \<open>tag\<close> is outside the reserved set, and assigning to it does not
  succeed.
\<close>

theorem setattr_unreserved_counterexample:
  "''tag'' \<notin> reserved_namespace \<and>
   LLM_assign [] ''tag'' (PyStr ''t'') demo_dict = Inl (AttributeError ''tag'')"
  by (simp add: LLM_assign_def LLM_setattr_def object_setattr_def data_descriptor_def
                reserved_namespace_def LLM_properties_def)

section \<open>Dictionaries\<close>


lemma distinct_map_of_rev: "distinct (map fst xs) \<Longrightarrow> map_of (rev xs) = map_of xs"
  by (subst map_of_inject_set) (simp_all add: rev_map [symmetric])

lemma map_of_fold_update:
  "map_of (fold (\<lambda>(k, v). AList.update k v) xs acc) = map_of acc ++ map_of (rev xs)"
  by (induction xs arbitrary: acc) (auto simp: update_conv' fun_eq_iff map_add_def split: option.splits)

lemma map_of_dict_of_items:
  "distinct (map fst xs) \<Longrightarrow> map_of (dict_of_items xs) = map_of xs"
  by (simp add: dict_of_items_def map_of_fold_update distinct_map_of_rev)

lemma distinct_fold_update:
  "distinct (map fst acc) \<Longrightarrow> distinct (map fst (fold (\<lambda>(k, v). AList.update k v) xs acc))"
  by (induction xs arbitrary: acc) (auto simp: distinct_update)

lemma distinct_dict_of_items: "distinct (map fst (dict_of_items xs))"
  by (simp add: dict_of_items_def distinct_fold_update)

lemma map_of_dict_merge:
  "distinct (map fst a) \<Longrightarrow> distinct (map fst b) \<Longrightarrow>
   map_of (dict_merge a b) = map_of a ++ map_of b"
  by (simp add: dict_merge_def dict_of_items_def map_of_fold_update distinct_map_of_rev)

lemma startswith_iff: "startswith k p \<and> drop (length p) k = r \<longleftrightarrow> k = p @ r"
  by (auto simp: startswith_def) (metis append_take_drop_id)

lemma startswith_append [simp]: "startswith (p @ r) p"
  by (simp add: startswith_def)

lemma map_of_strip_prefix:
  "distinct (map fst xs) \<Longrightarrow>
   map_of (map (\<lambda>(k, v). (drop (length p) k, v)) (filter (\<lambda>(k, v). startswith k p) xs)) r
     = map_of xs (p @ r)"
proof (induction xs)
  case Nil
  then show ?case by simp
next
  case (Cons kv xs)
  obtain k v where kv: "kv = (k, v)" by (cases kv)
  show ?case
  proof (cases "k = p @ r")
    case True
    then show ?thesis using kv by simp
  next
    case False
    then have "\<not> (startswith k p \<and> drop (length p) k = r)"
      using startswith_iff by blast
    then show ?thesis using Cons kv False by auto
  qed
qed

lemma keys_strip_prefix:
  "map fst (map (\<lambda>(k, v). (drop n k, v)) (filter (\<lambda>(k, v). P k) xs))
     = map (drop n) (filter P (map fst xs))"
  by (induction xs) auto

lemma inj_on_strip_prefix: "inj_on (drop (length p)) {k. startswith k p}"
proof (rule inj_onI)
  fix x y
  assume "x \<in> {k. startswith k p}" "y \<in> {k. startswith k p}"
    and eq: "drop (length p) x = drop (length p) y"
  then have "x = p @ drop (length p) x" "y = p @ drop (length p) y"
    using startswith_iff by blast+
  then show "x = y" using eq by metis
qed

lemma distinct_strip_prefix:
  "distinct (map fst xs) \<Longrightarrow>
   distinct (map fst (map (\<lambda>(k, v). (drop (length p) k, v)) (filter (\<lambda>(k, v). startswith k p) xs)))"
  unfolding keys_strip_prefix
  by (rule iffD2 [OF distinct_map])
     (auto intro: inj_on_subset [OF inj_on_strip_prefix])

lemma map_of_filter_keys:
  "map_of (filter (\<lambda>(k, v). P k) xs) r = (if P r then map_of xs r else None)"
  by (induction xs) auto

lemma distinct_filter_keys:
  "distinct (map fst xs) \<Longrightarrow> distinct (map fst (filter P xs))"
  by (simp add: distinct_map_filter)

lemma map_of_tokenizer_scoped:
  assumes "distinct (map fst kwds)"
  shows "map_of (tokenizer_scoped kwds) r = map_of kwds (tokenizer_prefix @ r)"
proof -
  let ?items = "map (\<lambda>(k, v). (drop (length tokenizer_prefix) k, v))
                    (filter (\<lambda>(k, v). startswith k tokenizer_prefix) kwds)"
  have "distinct (map fst ?items)"
    using assms by (rule distinct_strip_prefix)
  then have "map_of (dict_of_items ?items) = map_of ?items"
    by (rule map_of_dict_of_items)
  then show ?thesis
    unfolding tokenizer_scoped_def using map_of_strip_prefix [OF assms] by simp
qed

lemma map_of_model_scoped:
  "distinct (map fst kwds) \<Longrightarrow>
   map_of (model_scoped kwds) r = (if startswith r tokenizer_prefix then None else map_of kwds r)"
  by (simp add: model_scoped_def map_of_dict_of_items distinct_filter_keys map_of_filter_keys)


lemma distinct_tokenizer_scoped: "distinct (map fst (tokenizer_scoped d))"
  by (simp add: tokenizer_scoped_def distinct_dict_of_items)

lemma distinct_model_scoped: "distinct (map fst (model_scoped d))"
  by (simp add: model_scoped_def distinct_dict_of_items)

lemma lookup_dict_merge:
  "distinct (map fst a) \<Longrightarrow> distinct (map fst b) \<Longrightarrow>
   map_of (dict_merge a b) r = (case map_of b r of Some v \<Rightarrow> Some v | None \<Rightarrow> map_of a r)"
  by (simp add: map_of_dict_merge map_add_def)

lemma split_kwds_None: "split_kwds None kwds = (tokenizer_scoped kwds, model_scoped kwds)"
  by (simp add: split_kwds_def truthy_dict_def)

lemma split_kwds_Some:
  "split_kwds (Some ik) kwds =
     (if ik = [] then (tokenizer_scoped kwds, model_scoped kwds)
      else (dict_merge (tokenizer_scoped ik) (tokenizer_scoped kwds),
            dict_merge (model_scoped ik) (model_scoped kwds)))"
  by (simp add: split_kwds_def truthy_dict_def)


section \<open>The partition of the keyword parameters\<close>

text \<open>
  C4 (as amended). For a well-formed dictionary \<open>kwds\<close>, the tokenizer parameters map a
  key \<open>r\<close> to the value that \<open>kwds\<close> has under \<open>_tokenizer_r\<close>, and the model
  parameters map every key without the prefix to its value in \<open>kwds\<close> and have no key
  with the prefix; a key and its prefixed form do not interfere. Where \<open>kwds\<close> has no
  entry, the class-level \<open>import_kwargs\<close>, split in the same way, supply one; without
  \<open>import_kwargs\<close> there are no other entries.
\<close>

theorem split_kwds_partition:
  assumes "well_formed_dict kwds"
      and "case iko of None \<Rightarrow> True | Some ik \<Rightarrow> well_formed_dict ik"
  shows "map_of (fst (split_kwds iko kwds)) r =
           (case map_of kwds (tokenizer_prefix @ r) of
              Some v \<Rightarrow> Some v
            | None \<Rightarrow> (case iko of
                         None \<Rightarrow> None
                       | Some ik \<Rightarrow> map_of ik (tokenizer_prefix @ r)))
         \<and>
         map_of (snd (split_kwds iko kwds)) r =
           (if startswith r tokenizer_prefix then None
            else case map_of kwds r of
                   Some v \<Rightarrow> Some v
                 | None \<Rightarrow> (case iko of None \<Rightarrow> None | Some ik \<Rightarrow> map_of ik r))"
proof
  have dk: "distinct (map fst kwds)"
    using assms(1) by (simp add: well_formed_dict_def)
  show "map_of (fst (split_kwds iko kwds)) r =
           (case map_of kwds (tokenizer_prefix @ r) of
              Some v \<Rightarrow> Some v
            | None \<Rightarrow> (case iko of
                         None \<Rightarrow> None
                       | Some ik \<Rightarrow> map_of ik (tokenizer_prefix @ r)))"
  proof (cases iko)
    case None
    then show ?thesis
      using dk by (simp add: split_kwds_None map_of_tokenizer_scoped split: option.splits)
  next
    case (Some ik)
    then have "distinct (map fst ik)"
      using assms(2) by (simp add: well_formed_dict_def)
    then show ?thesis
      using dk Some
      by (cases "ik = []")
         (simp_all add: split_kwds_Some map_of_tokenizer_scoped lookup_dict_merge
                        distinct_tokenizer_scoped split: option.splits)
  qed
  show "map_of (snd (split_kwds iko kwds)) r =
           (if startswith r tokenizer_prefix then None
            else case map_of kwds r of
                   Some v \<Rightarrow> Some v
                 | None \<Rightarrow> (case iko of None \<Rightarrow> None | Some ik \<Rightarrow> map_of ik r))"
  proof (cases iko)
    case None
    then show ?thesis
      using dk by (simp add: split_kwds_None map_of_model_scoped split: option.splits)
  next
    case (Some ik)
    then have "distinct (map fst ik)"
      using assms(2) by (simp add: well_formed_dict_def)
    then show ?thesis
      using dk Some
      by (cases "ik = []")
         (simp_all add: split_kwds_Some map_of_model_scoped lookup_dict_merge
                        distinct_model_scoped split: option.splits)
  qed
qed

theorem split_kwds_partition_witness:
  "well_formed_dict [(''_tokenizer_padding_side'', PyStr ''left''), (''padding_side'', PyStr ''right'')]
   \<and> map_of (fst (split_kwds None [(''_tokenizer_padding_side'', PyStr ''left''),
                                    (''padding_side'', PyStr ''right'')])) ''padding_side''
       = Some (PyStr ''left'')
   \<and> map_of (snd (split_kwds None [(''_tokenizer_padding_side'', PyStr ''left''),
                                    (''padding_side'', PyStr ''right'')])) ''padding_side''
       = Some (PyStr ''right'')"
proof -
  have wf: "well_formed_dict [(''_tokenizer_padding_side'', PyStr ''left''),
                              (''padding_side'', PyStr ''right'')]"
    by (simp add: well_formed_dict_def)
  have none: "case None :: kwargs option of None \<Rightarrow> True | Some ik \<Rightarrow> well_formed_dict ik"
    by simp
  show ?thesis
    using wf split_kwds_partition [OF wf none, of "''padding_side''"]
    by (simp add: tokenizer_prefix_def startswith_def)
qed

text \<open>
  C4 as stated fails: with class-level \<open>import_kwargs\<close> the model parameters have a key
  that the keyword-parameter mapping does not have.
\<close>

theorem split_kwds_extra_key_counterexample:
  "map_of [(''_tokenizer_padding_side'', PyStr ''left''), (''torch_dtype'', PyStr ''float16'')]
          ''device_map'' = None
   \<and> map_of (snd (split_kwds (Some [(''device_map'', PyStr ''auto'')])
                  [(''_tokenizer_padding_side'', PyStr ''left''),
                   (''torch_dtype'', PyStr ''float16'')])) ''device_map''
       = Some (PyStr ''auto'')"
  by (simp add: split_kwds_def truthy_dict_def tokenizer_scoped_def model_scoped_def
                dict_merge_def dict_of_items_def startswith_def tokenizer_prefix_def)

section \<open>Construction\<close>

lemma init_config_unfold:
  "init_config cls llm_config kwargs m =
     (case llm_config of
        Some c \<Rightarrow> (Inr (c, kwargs), m)
      | None \<Rightarrow>
          (case config_class cls kwargs of
             Inl e \<Rightarrow> (Inl e, m)
           | Inr c \<Rightarrow>
               (case pydantic_extra c of
                  None \<Rightarrow> (Inl (AssertionError []), m)
                | Some extra \<Rightarrow> (Inr (c, extra), m))))"
  by (simp add: init_config_def lift_result_def bnd_apply split: option.splits sum.splits)

lemma LLM_init_unfold:
  "LLM_init cls environ pretrained llm_config args kwargs m =
     (case init_config cls llm_config kwargs m of
        (Inl e, m1) \<Rightarrow> (Inl e, m1)
      | (Inr (c, kw), m1) \<Rightarrow>
          (case init_pretrained cls environ c pretrained m1 of
             (Inl e, m2) \<Rightarrow> (Inl e, m2)
           | (Inr p, m2) \<Rightarrow> (Inr (new_llm c p args kw), m2)))"
  by (simp add: LLM_init_def bnd_apply split: prod.splits sum.splits)

text \<open>
  C6 (as amended). When no pretrained name is given and the configuration step succeeds
  with a configuration \<open>c\<close> whose model name is ASCII, construction stores as
  \<open>_pretrained\<close> the value of the environment variable
  \<^verbatim>\<open>OPENLLM_<MODEL NAME IN UPPER CASE>_PRETRAINED\<close> if that is set and not empty, else the
  class's \<open>default_model\<close> if that is set and not empty, next to the configuration and
  the arguments. With neither, construction raises \<^verbatim>\<open>AssertionError\<close> (the \<^verbatim>\<open>assert\<close> on
  a \<open>default_model\<close> that is \<^verbatim>\<open>None\<close> or empty) or \<^verbatim>\<open>AttributeError\<close> (a class without
  the attribute).
\<close>

theorem LLM_init_pretrained_fallback:
  assumes "init_config cls llm_config kwargs m = (Inr (c, kw), m1)"
      and "is_ascii (openllm_model_name c)"
  shows "case map_of environ (''OPENLLM_'' @ upper (openllm_model_name c) @ ''_PRETRAINED'') of
           Some (x # xs) \<Rightarrow>
             (\<exists>self. fst (LLM_init cls environ None llm_config args kwargs m) = Inr self
                \<and> self_pretrained self = x # xs
                \<and> config self = c \<and> self_args self = args \<and> self_kwargs self = kw)
         | _ \<Rightarrow>
            (case default_model cls of
               Defined (Some (x # xs)) \<Rightarrow>
                 (\<exists>self. fst (LLM_init cls environ None llm_config args kwargs m) = Inr self
                    \<and> self_pretrained self = x # xs
                    \<and> config self = c \<and> self_args self = args \<and> self_kwargs self = kw)
             | Defined _ \<Rightarrow>
                 fst (LLM_init cls environ None llm_config args kwargs m)
                   = Inl (AssertionError ''A default model is required for any LLM.'')
             | Undefined \<Rightarrow>
                 fst (LLM_init cls environ None llm_config args kwargs m)
                   = Inl (AttributeError ''default_model''))"
  using assms(1)
  by (simp add: LLM_init_unfold init_pretrained_def static_default_def environ_key_def
                new_llm_def
           split: option.splits list.splits class_attr.splits)

theorem LLM_init_pretrained_fallback_witness:
  "(case fst (LLM_init demo_class [(''OPENLLM_FLAN_T5_PRETRAINED'', ''google/flan-t5-xl'')] None
                (Some demo_config) [] [] empty_machine) of
      Inl e \<Rightarrow> False
    | Inr self \<Rightarrow> self_pretrained self = ''google/flan-t5-xl'')
   \<and> (case fst (LLM_init demo_class [(''OPENLLM_OPT_PRETRAINED'', ''facebook/opt-1.3b'')] None
                  (Some demo_config) [] [] empty_machine) of
         Inl e \<Rightarrow> False
       | Inr self \<Rightarrow> self_pretrained self = ''google/flan-t5-large'')
   \<and> fst (LLM_init (demo_class\<lparr>default_model := Defined (Some [])\<rparr>) [] None (Some demo_config)
            [] [] empty_machine)
       = Inl (AssertionError ''A default model is required for any LLM.'')"
proof -
  have c: "init_config cls (Some demo_config) [] empty_machine = (Inr (demo_config, []), empty_machine)"
    for cls :: "mem_store llm_class"
    by (simp add: init_config_def)
  have a: "is_ascii (openllm_model_name demo_config)"
    by (simp add: is_ascii_def demo_config_def)
  have k: "''OPENLLM_'' @ upper (openllm_model_name demo_config) @ ''_PRETRAINED''
             = ''OPENLLM_FLAN_T5_PRETRAINED''"
    by (simp add: demo_config_def upper_def char_upper_def)
  show ?thesis
    using LLM_init_pretrained_fallback [OF c a, of demo_class
            "[(''OPENLLM_FLAN_T5_PRETRAINED'', ''google/flan-t5-xl'')]" "[]"]
          LLM_init_pretrained_fallback [OF c a, of demo_class
            "[(''OPENLLM_OPT_PRETRAINED'', ''facebook/opt-1.3b'')]" "[]"]
          LLM_init_pretrained_fallback [OF c a, of "demo_class\<lparr>default_model := Defined (Some [])\<rparr>"
            "[]" "[]"]
    unfolding k by (auto simp: demo_class_def)
qed

text \<open>
  C6 as stated fails: with no environment variable and no static default, construction
  raises \<^verbatim>\<open>AssertionError\<close> where \<open>default_model\<close> is \<^verbatim>\<open>None\<close>, and \<^verbatim>\<open>AttributeError\<close> where
  the class has no \<open>default_model\<close>; neither is an exception of the package.
\<close>

theorem no_default_model_counterexample:
  "fst (LLM_init (demo_class\<lparr>default_model := Defined None\<rparr>) [] None (Some demo_config) [] []
          empty_machine)
     = Inl (AssertionError ''A default model is required for any LLM.'')
   \<and> fst (LLM_init (demo_class\<lparr>default_model := Undefined\<rparr>) [] None (Some demo_config) [] []
            empty_machine)
       = Inl (AttributeError ''default_model'')"
  by (simp add: LLM_init_unfold init_config_def init_pretrained_def static_default_def
                demo_class_def bnd_apply)

lemma static_default_const: "\<exists>r. \<forall>m :: 's. static_default cls m = (r, m)"
proof (cases "default_model cls")
  case Undefined
  then show ?thesis by (simp add: static_default_def)
next
  case (Defined d)
  then show ?thesis by (cases d) (simp_all add: static_default_def)
qed

lemma init_pretrained_const: "\<exists>r. \<forall>m :: 's. init_pretrained cls environ c pretrained m = (r, m)"
proof -
  obtain rd where rd: "\<And>m :: 's. static_default cls m = (rd, m)"
    using static_default_const by metis
  show ?thesis
  proof (cases pretrained)
    case (Some p)
    then show ?thesis by (simp add: init_pretrained_def)
  next
    case None
    show ?thesis
    proof (cases "map_of environ (environ_key c)")
      case n: None
      then show ?thesis using None rd by (simp add: init_pretrained_def)
    next
      case (Some p)
      then show ?thesis using None rd by (cases "p = []") (simp_all add: init_pretrained_def)
    qed
  qed
qed

lemma init_config_const: "\<exists>r. \<forall>m :: 's. init_config cls llm_config kwargs m = (r, m)"
proof (cases llm_config)
  case (Some c)
  then show ?thesis by (simp add: init_config_unfold)
next
  case None
  show ?thesis
  proof (cases "config_class cls kwargs")
    case (Inl e)
    then show ?thesis using None by (simp add: init_config_unfold)
  next
    case (Inr c)
    then show ?thesis using None by (cases "pydantic_extra c") (simp_all add: init_config_unfold)
  qed
qed

lemma LLM_init_const:
  fixes cls :: "'w llm_class"
  shows "\<exists>r. \<forall>m. LLM_init cls environ pretrained llm_config args kwargs m = (r, m)"
proof -
  obtain rc where rc: "\<And>m :: 'w machine. init_config cls llm_config kwargs m = (rc, m)"
    using init_config_const by metis
  show ?thesis
  proof (cases rc)
    case (Inl e)
    have "\<forall>m. LLM_init cls environ pretrained llm_config args kwargs m = (Inl e, m)"
      using rc Inl by (simp add: LLM_init_unfold)
    then show ?thesis by blast
  next
    case (Inr ck)
    obtain c kw where ck: "ck = (c, kw)" by (cases ck)
    obtain rp where rp: "\<And>m :: 'w machine. init_pretrained cls environ c pretrained m = (rp, m)"
      using init_pretrained_const by metis
    show ?thesis
    proof (cases rp)
      case (Inl e)
      have "\<forall>m. LLM_init cls environ pretrained llm_config args kwargs m = (Inl e, m)"
        using rc rp Inr ck Inl by (simp add: LLM_init_unfold)
      then show ?thesis by blast
    next
      case r: (Inr p)
      have "\<forall>m. LLM_init cls environ pretrained llm_config args kwargs m
                  = (Inr (new_llm c p args kw), m)"
        using rc rp Inr ck r by (simp add: LLM_init_unfold)
      then show ?thesis by blast
    qed
  qed
qed

lemma LLM_init_caches:
  "fst (LLM_init cls environ pretrained llm_config args kwargs m) = Inr self \<Longrightarrow>
   bentomodel_cache self = None \<and> llm_model_cache self = PyNone
   \<and> llm_tokenizer_cache self = PyNone"
  by (auto simp: LLM_init_unfold new_llm_def split: prod.splits sum.splits)

text \<open>
  C7. Construction leaves the world of the store and the backend and the trace of
  external calls as they were, its outcome is the same in every such world, and the
  instance it returns has an empty artifact, model and tokenizer cache.
\<close>

theorem LLM_init_is_lazy:
  "snd (LLM_init cls environ pretrained llm_config args kwargs m) = m
   \<and> fst (LLM_init cls environ pretrained llm_config args kwargs m')
       = fst (LLM_init cls environ pretrained llm_config args kwargs m)
   \<and> (\<forall>self. fst (LLM_init cls environ pretrained llm_config args kwargs m) = Inr self \<longrightarrow>
         bentomodel_cache self = None \<and> llm_model_cache self = PyNone
         \<and> llm_tokenizer_cache self = PyNone)"
proof -
  obtain r where r: "\<And>m. LLM_init cls environ pretrained llm_config args kwargs m = (r, m)"
    using LLM_init_const by metis
  have "snd (LLM_init cls environ pretrained llm_config args kwargs m) = m"
    by (simp add: r)
  moreover have "fst (LLM_init cls environ pretrained llm_config args kwargs m')
       = fst (LLM_init cls environ pretrained llm_config args kwargs m)"
    by (simp add: r)
  ultimately show ?thesis
    using LLM_init_caches [of cls environ pretrained llm_config args kwargs m] by blast
qed

theorem LLM_init_is_lazy_witness:
  "LLM_init demo_class [] None None [] demo_kwargs empty_machine
     = (Inr (new_llm (demo_config\<lparr>pydantic_extra := Some demo_kwargs\<rparr>)
                     ''google/flan-t5-large'' [] demo_kwargs), empty_machine)
   \<and> bentomodel_cache (new_llm (demo_config\<lparr>pydantic_extra := Some demo_kwargs\<rparr>)
                               ''google/flan-t5-large'' [] demo_kwargs) = None"
proof -
  have run: "LLM_init demo_class [] None None [] demo_kwargs empty_machine
     = (Inr (new_llm (demo_config\<lparr>pydantic_extra := Some demo_kwargs\<rparr>)
                     ''google/flan-t5-large'' [] demo_kwargs), empty_machine)"
    by (simp add: LLM_init_unfold init_config_def init_pretrained_def static_default_def
                  demo_class_def bnd_apply)
  show ?thesis
    using run LLM_init_is_lazy [of demo_class "[]" None None "[]" demo_kwargs empty_machine
                                   empty_machine]
    by simp
qed

section \<open>The accessors: evaluation rules\<close>

lemma getattr_apply [simp]: "getattr field s = (Inr (field (fst s)), s)"
  by (cases s) (simp add: getattr_def)

lemma mutate_apply [simp]: "mutate f s = (Inr (), (f (fst s), snd s))"
  by (cases s) (simp add: mutate_def)

lemma log_event_apply [simp]:
  "log_event ev s = (Inr (), (fst s, (snd s)\<lparr>trace := trace (snd s) @ [ev]\<rparr>))"
  by (cases s) (simp add: log_event_def)

lemma extern_apply:
  "extern ev f s =
     (fst (f (world (snd s))),
      (fst s, \<lparr>world = snd (f (world (snd s))), trace = trace (snd s) @ [ev]\<rparr>))"
  by (cases s) (simp add: extern_def split: prod.splits)

lemma setattr_apply:
  "setattr attr store s =
     (case own_setattr attr store (fst s) of
        Inl e \<Rightarrow> (Inl e, s)
      | Inr self' \<Rightarrow> (Inr (), (self', snd s)))"
  by (cases s) (simp add: setattr_def split: sum.splits)

lemma setattr_cache [simp]:
  "setattr ''__bentomodel__'' store s = (Inr (), (store (fst s), snd s))"
  "setattr ''__llm_model__'' store s = (Inr (), (store (fst s), snd s))"
  "setattr ''__llm_tokenizer__'' store s = (Inr (), (store (fst s), snd s))"
  by (simp_all add: setattr_apply own_setattr_plain own_names reserved_namespace_def)

lemma setattr_model [simp]:
  "setattr ''model'' store s = (Inl (ForbiddenAttributeError ''model''), s)"
  by (simp add: setattr_apply own_setattr_def LLM_setattr_def reserved_namespace_def)

lemma set_bentomodel_apply [simp]:
  "set_bentomodel b s = (Inr b, ((fst s)\<lparr>bentomodel_cache := Some b\<rparr>, snd s))"
  by (simp add: set_bentomodel_def)

lemma bnd_eq_Inr:
  "bnd m f s = (Inr y, s'') \<longleftrightarrow> (\<exists>x s'. m s = (Inr x, s') \<and> f x s' = (Inr y, s''))"
  by (auto simp: bnd_def split: prod.splits sum.splits)

lemma lift_result_eq_Inr: "lift_result r s = (Inr x, s') \<longleftrightarrow> r = Inr x \<and> s' = s"
  by (cases r) auto

lemma extern_eq_Inr:
  "extern ev f s = (Inr x, s') \<longleftrightarrow>
     (\<exists>w'. f (world (snd s)) = (Inr x, w')
           \<and> s' = (fst s, \<lparr>world = w', trace = trace (snd s) @ [ev]\<rparr>))"
  by (cases "f (world (snd s))") (auto simp: extern_apply)

lemma dict_pop_snd: "snd (dict_pop k dflt d) = AList.delete k d"
proof (cases "map_of d k")
  case None
  then have "k \<notin> fst ` set d" by (simp add: map_of_eq_None_iff)
  then show ?thesis using None by (simp add: dict_pop_def)
next
  case (Some v)
  then show ?thesis by (simp add: dict_pop_def)
qed

lemma pop_trust_remote_code_apply:
  "pop_trust_remote_code s =
     (Inr (fst (dict_pop ''trust_remote_code''
                 (PyBool (openllm_trust_remote_code (config (fst s)))) (self_kwargs (fst s)))),
      ((fst s)\<lparr>self_kwargs := AList.delete ''trust_remote_code'' (self_kwargs (fst s))\<rparr>, snd s))"
proof -
  obtain v kw where p: "dict_pop ''trust_remote_code''
                 (PyBool (openllm_trust_remote_code (config (fst s)))) (self_kwargs (fst s)) = (v, kw)"
    by (cases "dict_pop ''trust_remote_code''
                 (PyBool (openllm_trust_remote_code (config (fst s)))) (self_kwargs (fst s))")
  then have "kw = AList.delete ''trust_remote_code'' (self_kwargs (fst s))"
    using dict_pop_snd [of "''trust_remote_code''"
              "PyBool (openllm_trust_remote_code (config (fst s)))" "self_kwargs (fst s)"]
    by simp
  then show ?thesis
    using p by (cases s) (simp add: pop_trust_remote_code_def)
qed

text \<open>The events of a resolution of the tag: none of them is a store or an import call.\<close>

lemma call_generate_tags_state:
  "call_generate_tags ext p impl trc kw s = (r, s') \<Longrightarrow>
   fst s' = fst s \<and>
   (\<exists>evs. trace (snd s') = trace (snd s) @ evs \<and> set evs \<subseteq> {EvGenerateTags p})"
  by (auto simp: call_generate_tags_def extern_apply split: if_splits)

lemma resolve_tag_state:
  assumes "resolve_tag cls ext s = (r, s')"
  shows "fst s' = (fst s)\<lparr>self_kwargs := AList.delete ''trust_remote_code'' (self_kwargs (fst s))\<rparr>
         \<and> (\<exists>evs. trace (snd s') = trace (snd s) @ evs
                  \<and> set evs \<subseteq> {EvGenerateTags (self_pretrained (fst s))})"
proof -
  let ?s1 = "((fst s)\<lparr>self_kwargs := AList.delete ''trust_remote_code'' (self_kwargs (fst s))\<rparr>, snd s)"
  let ?trc = "fst (dict_pop ''trust_remote_code''
                 (PyBool (openllm_trust_remote_code (config (fst s)))) (self_kwargs (fst s)))"
  let ?g = "call_generate_tags ext (self_pretrained (fst s)) (implementation cls) ?trc
              (AList.delete ''trust_remote_code'' (self_kwargs (fst s)))"
  obtain rg sg where g: "?g ?s1 = (rg, sg)" by (cases "?g ?s1")
  have st: "fst sg = fst ?s1 \<and>
            (\<exists>evs. trace (snd sg) = trace (snd ?s1) @ evs
                   \<and> set evs \<subseteq> {EvGenerateTags (self_pretrained (fst s))})"
    using call_generate_tags_state [OF g] .
  have "s' = sg"
    using assms g
    by (cases rg)
       (auto simp: resolve_tag_def bnd_apply pop_trust_remote_code_apply split: prod.splits)
  then show ?thesis using st by simp
qed

lemma count_events_simps [simp]:
  "count_events p [] = 0"
  "count_events p (e # evs) = (if p e then Suc (count_events p evs) else count_events p evs)"
  "count_events p (evs @ evs') = count_events p evs + count_events p evs'"
  by (simp_all add: count_events_def)

lemma import_model_success:
  assumes "import_model ext name t fw args tk kwds s = (Inr b, s')"
  shows "fst s' = fst s \<and>
         (\<exists>evs. trace (snd s') = trace (snd s) @ evs
                \<and> count_events is_import evs = 1
                \<and> count_events is_store_save evs = 1
                \<and> count_events is_store_get evs = 0)"
  using assms unfolding import_model_def
  by (auto simp: bnd_eq_Inr extern_eq_Inr lift_result_eq_Inr Let_def
           split: prod.splits if_splits)

lemma call_import_model_success:
  assumes "call_import_model ext p t args tk trc impl kwds s = (Inr b, s')"
  shows "fst s' = fst s \<and>
         (\<exists>evs. trace (snd s') = trace (snd s) @ evs
                \<and> count_events is_import evs = 1
                \<and> count_events is_store_save evs = 1
                \<and> count_events is_store_get evs = 0)"
proof -
  have "import_model ext p t impl [] tk ((''trust_remote_code'', trc) # kwds) s = (Inr b, s')"
    using assms by (simp add: call_import_model_def split: if_splits option.splits)
  then show ?thesis by (rule import_model_success)
qed

text \<open>\<^verbatim>\<open>ChatGLM.import_model\<close> is given \<open>trust_remote_code\<close> among its keyword arguments and
  passes it on next to its own \<^verbatim>\<open>trust_remote_code=True\<close>.\<close>

lemma ChatGLM_import_model_clash:
  "ChatGLM_import_model ext p t args tk ((''trust_remote_code'', trc) # kwds) s =
     (Inl (duplicate_keyword ext ''trust_remote_code''),
      (fst s, (snd s)\<lparr>trace := trace (snd s) @ [EvImportOverride p]\<rparr>))"
  by (simp add: ChatGLM_import_model_def call_kwargs_def bnd_apply)

lemma call_override_ChatGLM:
  "\<exists>e. fst (call_override ext ChatGLM_override p t args tk trc kwds s) = Inl e"
  by (simp add: call_override_def ChatGLM_import_model_clash split: option.splits)

lemma call_override_success:
  assumes "call_override ext ov p t args tk trc kwds s = (Inr b, s')"
  shows "fst s' = fst s \<and>
         (\<exists>evs. trace (snd s') = trace (snd s) @ evs
                \<and> count_events is_import evs = 1
                \<and> count_events is_store_get evs = 0)"
proof (cases ov)
  case ChatGLM_override
  then show ?thesis
    using assms call_override_ChatGLM [of ext p t args tk trc kwds s] by auto
next
  case (Custom_override f)
  then show ?thesis
    using assms
    by (cases s) (auto simp: call_override_def bnd_apply split: option.splits prod.splits)
qed


text \<open>The accessor on an empty cache, step by step.\<close>

lemma LLM_bentomodel_cached:
  "bentomodel_cache (fst s) = Some b \<Longrightarrow> LLM_bentomodel cls ext s = (Inr b, s)"
  by (simp add: LLM_bentomodel_def bnd_apply)

lemma LLM_bentomodel_resolve_fails:
  "bentomodel_cache (fst s) = None \<Longrightarrow> resolve_tag cls ext s = (Inl e, s0) \<Longrightarrow>
   LLM_bentomodel cls ext s = (Inl e, s0)"
  by (simp add: LLM_bentomodel_def bnd_apply)

lemma LLM_bentomodel_hit:
  assumes "bentomodel_cache (fst s) = None"
      and "resolve_tag cls ext s = (Inr (t, tk, kwds, trc), s0)"
      and "store_get ext t (world (snd s0)) = (Inr b, w)"
  shows "LLM_bentomodel cls ext s =
           (Inr b, ((fst s0)\<lparr>bentomodel_cache := Some b\<rparr>,
                    \<lparr>world = w, trace = trace (snd s0) @ [EvStoreGet t]\<rparr>))"
  using assms
  by (simp add: LLM_bentomodel_def bnd_apply try_except_def extern_apply)

lemma LLM_bentomodel_get_raises:
  assumes "bentomodel_cache (fst s) = None"
      and "resolve_tag cls ext s = (Inr (t, tk, kwds, trc), s0)"
      and "store_get ext t (world (snd s0)) = (Inl e, w)"
      and "\<not> is_BentoMLException e"
  shows "LLM_bentomodel cls ext s =
           (Inl e, (fst s0, \<lparr>world = w, trace = trace (snd s0) @ [EvStoreGet t]\<rparr>))"
  using assms
  by (simp add: LLM_bentomodel_def bnd_apply try_except_def extern_apply)

lemma LLM_bentomodel_miss:
  assumes "bentomodel_cache (fst s) = None"
      and "resolve_tag cls ext s = (Inr (t, tk, kwds, trc), s0)"
      and "store_get ext t (world (snd s0)) = (Inl e, w)"
      and "is_BentoMLException e"
  shows "LLM_bentomodel cls ext s =
           bnd (case import_model_attr cls of
                  Some ov \<Rightarrow>
                    call_override ext ov (self_pretrained (fst s0)) t (self_args (fst s0)) tk trc kwds
                | None \<Rightarrow>
                    call_import_model ext (self_pretrained (fst s0)) t (self_args (fst s0)) tk trc
                      (implementation cls) kwds)
               set_bentomodel
               (fst s0, \<lparr>world = w, trace = trace (snd s0) @ [EvStoreGet t]\<rparr>)"
  using assms
  by (cases "import_model_attr cls")
     (simp_all add: LLM_bentomodel_def bnd_apply try_except_def extern_apply)

lemma count_events_none:
  "set evs \<subseteq> {EvGenerateTags p} \<Longrightarrow>
   count_events is_store_get evs = 0 \<and> count_events is_import evs = 0
   \<and> count_events is_store_save evs = 0"
  by (induction evs) auto

text \<open>Programs that leave the instance as it is.\<close>

lemma frame_bnd:
  assumes m: "\<And>s. fst (snd (m s)) = fst s"
      and f: "\<And>x s. fst (snd (f x s)) = fst s"
  shows "fst (snd (bnd m f s)) = fst s"
proof -
  obtain r s' where ms: "m s = (r, s')"
    by (cases "m s")
  have s': "fst s' = fst s"
    using m [of s] ms by simp
  show ?thesis
  proof (cases r)
    case (Inl e)
    then show ?thesis using ms s' by (simp add: bnd_def)
  next
    case (Inr x)
    then show ?thesis using ms s' f [of x s'] by (simp add: bnd_def)
  qed
qed

lemma frame_extern: "fst (snd (extern ev f s)) = fst s"
  by (simp add: extern_apply)

lemma frame_lift_result: "fst (snd (lift_result r s)) = fst s"
  by (cases r) simp_all

lemma frame_if:
  "fst (snd (a s)) = fst s \<Longrightarrow> fst (snd (b s)) = fst s \<Longrightarrow>
   fst (snd ((if c then a else b) s)) = fst s"
  by simp

lemma frame_prod:
  "(\<And>x y. fst (snd (f x y s)) = fst s) \<Longrightarrow> fst (snd ((case p of (x, y) \<Rightarrow> f x y) s)) = fst s"
  by (cases p) simp

lemma frame_ret: "fst (snd (ret x s)) = fst s"
  by simp

lemma frame_raise: "fst (snd (raise e s)) = fst s"
  by simp

lemma frame_log: "fst (snd (log_event ev s)) = fst s"
  by simp

lemma import_model_frame: "fst (snd (import_model ext name t fw args tk kwds s)) = fst s"
  unfolding import_model_def Let_def
  by (intro frame_bnd frame_extern frame_lift_result frame_if frame_prod frame_ret frame_raise
            frame_log)

lemma call_import_model_frame:
  "fst (snd (call_import_model ext p t args tk trc impl kwds s)) = fst s"
  by (simp add: call_import_model_def import_model_frame split: option.splits)

lemma call_override_frame:
  "fst (snd (call_override ext ov p t args tk trc kwds s)) = fst s"
proof (cases ov)
  case ChatGLM_override
  then show ?thesis
    by (simp add: call_override_def ChatGLM_import_model_clash split: option.splits)
next
  case (Custom_override f)
  then show ?thesis
    by (cases s) (simp add: call_override_def bnd_apply split: prod.splits option.splits)
qed


lemma LLM_bentomodel_kwargs:
  assumes "bentomodel_cache (fst s) = None"
  shows "self_kwargs (fst (snd (LLM_bentomodel cls ext s)))
           = AList.delete ''trust_remote_code'' (self_kwargs (fst s))
         \<and> self_args (fst (snd (LLM_bentomodel cls ext s))) = self_args (fst s)"
proof -
  obtain r s0 where rt: "resolve_tag cls ext s = (r, s0)"
    by (cases "resolve_tag cls ext s")
  have s0: "fst s0 = (fst s)\<lparr>self_kwargs := AList.delete ''trust_remote_code'' (self_kwargs (fst s))\<rparr>"
    using resolve_tag_state [OF rt] by simp
  show ?thesis
  proof (cases r)
    case (Inl e)
    then show ?thesis
      using LLM_bentomodel_resolve_fails [OF assms, of cls ext e s0] rt s0 by simp
  next
    case (Inr q)
    obtain t tk kwds trc where q: "q = (t, tk, kwds, trc)"
      by (cases q)
    obtain rg w where g: "store_get ext t (world (snd s0)) = (rg, w)"
      by (cases "store_get ext t (world (snd s0))")
    show ?thesis
    proof (cases rg)
      case b: (Inr b)
      show ?thesis
        using LLM_bentomodel_hit [OF assms, of cls ext t tk kwds trc s0 b w] rt Inr q g b s0
        by simp
    next
      case e: (Inl e)
      show ?thesis
      proof (cases "is_BentoMLException e")
        case False
        then show ?thesis
          using LLM_bentomodel_get_raises [OF assms, of cls ext t tk kwds trc s0 e w] rt Inr q g e s0
          by simp
      next
        case True
        let ?s1 = "(fst s0, \<lparr>world = w, trace = trace (snd s0) @ [EvStoreGet t]\<rparr>)"
        let ?imp = "case import_model_attr cls of
                  Some ov \<Rightarrow>
                    call_override ext ov (self_pretrained (fst s0)) t (self_args (fst s0)) tk trc kwds
                | None \<Rightarrow>
                    call_import_model ext (self_pretrained (fst s0)) t (self_args (fst s0)) tk trc
                      (implementation cls) kwds"
        have eq: "LLM_bentomodel cls ext s = bnd ?imp set_bentomodel ?s1"
          using LLM_bentomodel_miss [OF assms, of cls ext t tk kwds trc s0 e w] rt Inr q g e True
          by simp
        have fi: "fst (snd (?imp s')) = fst s'" for s'
          by (cases "import_model_attr cls")
             (simp_all add: call_import_model_frame call_override_frame)
        obtain ri si where i: "?imp ?s1 = (ri, si)"
          by (cases "?imp ?s1")
        have si: "fst si = fst s0"
          using fi [of ?s1] i by simp
        show ?thesis
          using eq i si s0 by (cases ri) (simp_all add: bnd_def)
      qed
    qed
  qed
qed

section \<open>Memoization of the artifact\<close>

lemma lookup_outcome_cases:
  "is_hit (lookup_outcome cls ext s) \<longleftrightarrow>
     (\<exists>t tk kwds trc s0 b w. resolve_tag cls ext s = (Inr (t, tk, kwds, trc), s0)
         \<and> store_get ext t (world (snd s0)) = (Inr b, w))"
  "is_miss (lookup_outcome cls ext s) \<longleftrightarrow>
     (\<exists>t tk kwds trc s0 e w. resolve_tag cls ext s = (Inr (t, tk, kwds, trc), s0)
         \<and> store_get ext t (world (snd s0)) = (Inl e, w) \<and> is_BentoMLException e)"
  by (auto simp: is_hit_def is_miss_def lookup_outcome_def
           split: prod.splits sum.splits option.splits)
     (metis prod.collapse)+

text \<open>
  C2. On an empty cache, when \<^verbatim>\<open>bentoml.transformers.get\<close> finds the artifact, the
  accessor returns it and caches it, after exactly one call to the store and without
  any call of an import routine (default or override) and without any save.
\<close>

theorem cache_hit_no_import:
  assumes "bentomodel_cache (fst s) = None"
      and "is_hit (lookup_outcome cls ext s)"
  shows "\<exists>b s' evs. LLM_bentomodel cls ext s = (Inr b, s')
           \<and> bentomodel_cache (fst s') = Some b
           \<and> trace (snd s') = trace (snd s) @ evs
           \<and> count_events is_store_get evs = 1
           \<and> count_events is_import evs = 0
           \<and> count_events is_store_save evs = 0"
proof -
  obtain t tk kwds trc s0 b w where
    rt: "resolve_tag cls ext s = (Inr (t, tk, kwds, trc), s0)" and
    g: "store_get ext t (world (snd s0)) = (Inr b, w)"
    using assms(2) lookup_outcome_cases(1) [of cls ext s] by blast
  obtain evs0 where ev: "trace (snd s0) = trace (snd s) @ evs0"
      "set evs0 \<subseteq> {EvGenerateTags (self_pretrained (fst s))}"
    using resolve_tag_state [OF rt] by blast
  have run: "LLM_bentomodel cls ext s =
           (Inr b, ((fst s0)\<lparr>bentomodel_cache := Some b\<rparr>,
                    \<lparr>world = w, trace = trace (snd s0) @ [EvStoreGet t]\<rparr>))"
    using LLM_bentomodel_hit [OF assms(1) rt g] .
  have "trace (snd ((fst s0)\<lparr>bentomodel_cache := Some b\<rparr>,
                    \<lparr>world = w, trace = trace (snd s0) @ [EvStoreGet t]\<rparr>))
          = trace (snd s) @ (evs0 @ [EvStoreGet t])"
    using ev(1) by simp
  moreover have "count_events is_store_get (evs0 @ [EvStoreGet t]) = 1"
      "count_events is_import (evs0 @ [EvStoreGet t]) = 0"
      "count_events is_store_save (evs0 @ [EvStoreGet t]) = 0"
    using count_events_none [OF ev(2)] by simp_all
  ultimately show ?thesis
    using run by (intro exI [of _ b] exI [of _ "evs0 @ [EvStoreGet t]"] exI) auto
qed


lemma LLM_bentomodel_caches:
  assumes "LLM_bentomodel cls ext s = (Inr b, s')"
  shows "bentomodel_cache (fst s') = Some b"
proof (cases "bentomodel_cache (fst s)")
  case (Some b')
  then show ?thesis
    using assms LLM_bentomodel_cached [OF Some, of cls ext] by simp
next
  case None
  obtain r s0 where rt: "resolve_tag cls ext s = (r, s0)"
    by (cases "resolve_tag cls ext s")
  show ?thesis
  proof (cases r)
    case (Inl e)
    then show ?thesis
      using LLM_bentomodel_resolve_fails [OF None, of cls ext e s0] rt assms by simp
  next
    case (Inr q)
    obtain t tk kwds trc where q: "q = (t, tk, kwds, trc)"
      by (cases q)
    obtain rg w where g: "store_get ext t (world (snd s0)) = (rg, w)"
      by (cases "store_get ext t (world (snd s0))")
    show ?thesis
    proof (cases rg)
      case b: (Inr b')
      show ?thesis
        using LLM_bentomodel_hit [OF None, of cls ext t tk kwds trc s0 b' w] rt Inr q g b assms
        by auto
    next
      case e: (Inl e)
      show ?thesis
      proof (cases "is_BentoMLException e")
        case False
        then show ?thesis
          using LLM_bentomodel_get_raises [OF None, of cls ext t tk kwds trc s0 e w]
                rt Inr q g e assms
          by simp
      next
        case True
        have "bnd (case import_model_attr cls of
                  Some ov \<Rightarrow>
                    call_override ext ov (self_pretrained (fst s0)) t (self_args (fst s0)) tk trc kwds
                | None \<Rightarrow>
                    call_import_model ext (self_pretrained (fst s0)) t (self_args (fst s0)) tk trc
                      (implementation cls) kwds)
               set_bentomodel
               (fst s0, \<lparr>world = w, trace = trace (snd s0) @ [EvStoreGet t]\<rparr>) = (Inr b, s')"
          using LLM_bentomodel_miss [OF None, of cls ext t tk kwds trc s0 e w]
                rt Inr q g e True assms
          by simp
        then obtain b' si where "set_bentomodel b' si = (Inr b, s')"
          unfolding bnd_eq_Inr by blast
        then show ?thesis by auto
      qed
    qed
  qed
qed

text \<open>The first call of the accessor on an empty cache, when it returns.\<close>

lemma LLM_bentomodel_first_call:
  assumes "bentomodel_cache (fst s) = None"
      and "LLM_bentomodel cls ext s = (Inr b, s')"
  shows "\<exists>evs. trace (snd s') = trace (snd s) @ evs
           \<and> count_events is_store_get evs = 1
           \<and> (is_hit (lookup_outcome cls ext s) \<longrightarrow>
                 count_events is_import evs = 0 \<and> count_events is_store_save evs = 0)
           \<and> (is_miss (lookup_outcome cls ext s) \<longrightarrow>
                 count_events is_import evs = 1
                 \<and> (import_model_attr cls = None \<longrightarrow> count_events is_store_save evs = 1))
           \<and> LLM_bentomodel cls ext s' = (Inr b, s')"
proof -
  have again: "LLM_bentomodel cls ext s' = (Inr b, s')"
    using LLM_bentomodel_cached [OF LLM_bentomodel_caches [OF assms(2)]] .
  obtain r s0 where rt: "resolve_tag cls ext s = (r, s0)"
    by (cases "resolve_tag cls ext s")
  obtain evs0 where ev: "trace (snd s0) = trace (snd s) @ evs0"
      "set evs0 \<subseteq> {EvGenerateTags (self_pretrained (fst s))}"
    using resolve_tag_state [OF rt] by blast
  note c0 = count_events_none [OF ev(2)]
  show ?thesis
  proof (cases r)
    case (Inl e)
    then show ?thesis
      using LLM_bentomodel_resolve_fails [OF assms(1), of cls ext e s0] rt assms(2) by simp
  next
    case (Inr q)
    obtain t tk kwds trc where q: "q = (t, tk, kwds, trc)"
      by (cases q)
    obtain rg w where g: "store_get ext t (world (snd s0)) = (rg, w)"
      by (cases "store_get ext t (world (snd s0))")
    have rt': "resolve_tag cls ext s = (Inr (t, tk, kwds, trc), s0)"
      using rt Inr q by simp
    show ?thesis
    proof (cases rg)
      case b: (Inr b')
      have g': "store_get ext t (world (snd s0)) = (Inr b', w)"
        using g b by simp
      have nomiss: "\<not> is_miss (lookup_outcome cls ext s)"
        using rt' g' by (simp add: is_miss_def lookup_outcome_def)
      have s': "s' = ((fst s0)\<lparr>bentomodel_cache := Some b'\<rparr>,
                      \<lparr>world = w, trace = trace (snd s0) @ [EvStoreGet t]\<rparr>)"
        using LLM_bentomodel_hit [OF assms(1) rt' g'] assms(2) by simp
      have "trace (snd s') = trace (snd s) @ (evs0 @ [EvStoreGet t])"
        using s' ev(1) by simp
      moreover have "count_events is_store_get (evs0 @ [EvStoreGet t]) = 1"
        "count_events is_import (evs0 @ [EvStoreGet t]) = 0"
        "count_events is_store_save (evs0 @ [EvStoreGet t]) = 0"
        using c0 by simp_all
      ultimately show ?thesis
        using nomiss again by (intro exI [of _ "evs0 @ [EvStoreGet t]"]) simp
    next
      case e: (Inl e)
      have g': "store_get ext t (world (snd s0)) = (Inl e, w)"
        using g e by simp
      have nohit: "\<not> is_hit (lookup_outcome cls ext s)"
        using rt' g' by (simp add: is_hit_def lookup_outcome_def)
      show ?thesis
      proof (cases "is_BentoMLException e")
        case False
        then show ?thesis
          using LLM_bentomodel_get_raises [OF assms(1) rt' g'] assms(2) by simp
      next
        case True
        let ?s1 = "(fst s0, \<lparr>world = w, trace = trace (snd s0) @ [EvStoreGet t]\<rparr>)"
        let ?imp = "case import_model_attr cls of
                  Some ov \<Rightarrow>
                    call_override ext ov (self_pretrained (fst s0)) t (self_args (fst s0)) tk trc kwds
                | None \<Rightarrow>
                    call_import_model ext (self_pretrained (fst s0)) t (self_args (fst s0)) tk trc
                      (implementation cls) kwds"
        have "bnd ?imp set_bentomodel ?s1 = (Inr b, s')"
          using LLM_bentomodel_miss [OF assms(1) rt' g' True] assms(2) by simp
        then obtain b' si where i: "?imp ?s1 = (Inr b', si)"
            and si: "set_bentomodel b' si = (Inr b, s')"
          by (auto simp: bnd_eq_Inr)
        have tr: "trace (snd s') = trace (snd si)"
          using si by auto
        have "\<exists>evs1. trace (snd si) = trace (snd ?s1) @ evs1
                \<and> count_events is_import evs1 = 1
                \<and> count_events is_store_get evs1 = 0
                \<and> (import_model_attr cls = None \<longrightarrow> count_events is_store_save evs1 = 1)"
        proof (cases "import_model_attr cls")
          case None
          then have ci: "call_import_model ext (self_pretrained (fst s0)) t (self_args (fst s0))
                           tk trc (implementation cls) kwds ?s1 = (Inr b', si)"
            using i by simp
          from call_import_model_success [OF ci]
          obtain evs where "trace (snd si) = trace (snd ?s1) @ evs"
              "count_events is_import evs = 1" "count_events is_store_save evs = 1"
              "count_events is_store_get evs = 0"
            by (elim conjE exE)
          then show ?thesis
            by (intro exI [of _ evs]) simp
        next
          case (Some ov)
          then have ci: "call_override ext ov (self_pretrained (fst s0)) t (self_args (fst s0))
                           tk trc kwds ?s1 = (Inr b', si)"
            using i by simp
          from call_override_success [OF ci]
          obtain evs where "trace (snd si) = trace (snd ?s1) @ evs"
              "count_events is_import evs = 1" "count_events is_store_get evs = 0"
            by (elim conjE exE)
          then show ?thesis
            using Some by (intro exI [of _ evs]) simp
        qed
        then obtain evs1 where e1: "trace (snd si) = trace (snd ?s1) @ evs1"
            "count_events is_import evs1 = 1" "count_events is_store_get evs1 = 0"
            "import_model_attr cls = None \<longrightarrow> count_events is_store_save evs1 = 1"
          by (elim conjE exE)
        have "trace (snd s') = trace (snd s) @ (evs0 @ [EvStoreGet t] @ evs1)"
          using tr e1(1) ev(1) by simp
        moreover have "count_events is_store_get (evs0 @ [EvStoreGet t] @ evs1) = 1"
          "count_events is_import (evs0 @ [EvStoreGet t] @ evs1) = 1"
          "import_model_attr cls = None \<longrightarrow>
             count_events is_store_save (evs0 @ [EvStoreGet t] @ evs1) = 1"
          using c0 e1 by simp_all
        ultimately show ?thesis
          using nohit again by (intro exI [of _ "evs0 @ [EvStoreGet t] @ evs1"]) simp
      qed
    qed
  qed
qed

text \<open>
  C1 (as amended). On an empty cache, when the first call of the accessor returns a
  handle, the calls it has made include exactly one call of
  \<^verbatim>\<open>bentoml.transformers.get\<close>; if that call found the artifact, no import routine was
  called and nothing was saved; if it reported not-found, exactly one import routine was
  called, and the default routine saved exactly once. The second call returns the same
  handle and leaves the state, hence the trace, as it is.
\<close>

theorem bentomodel_memoized:
  assumes "bentomodel_cache (fst s) = None"
      and "LLM_bentomodel cls ext s = (Inr b, s')"
  shows "\<exists>evs. trace (snd s') = trace (snd s) @ evs
           \<and> count_events is_store_get evs = 1
           \<and> (is_hit (lookup_outcome cls ext s) \<longrightarrow>
                 count_events is_import evs = 0 \<and> count_events is_store_save evs = 0)
           \<and> (is_miss (lookup_outcome cls ext s) \<longrightarrow>
                 count_events is_import evs = 1
                 \<and> (import_model_attr cls = None \<longrightarrow> count_events is_store_save evs = 1))
           \<and> LLM_bentomodel cls ext s' = (Inr b, s')"
  using assms by (rule LLM_bentomodel_first_call)

theorem bentomodel_memoized_witness:
  "bentomodel_cache (fst (demo_llm, empty_machine)) = None
   \<and> fst (LLM_bentomodel demo_class (mem_ext (PyObj 1)) (demo_llm, empty_machine))
       = Inr demo_imported
   \<and> is_miss (lookup_outcome demo_class (mem_ext (PyObj 1)) (demo_llm, empty_machine))
   \<and> (\<exists>evs. trace (snd (snd (LLM_bentomodel demo_class (mem_ext (PyObj 1))
                                 (demo_llm, empty_machine))))
               = trace (snd (demo_llm, empty_machine)) @ evs
             \<and> count_events is_store_get evs = 1
             \<and> count_events is_import evs = 1
             \<and> count_events is_store_save evs = 1)
   \<and> LLM_bentomodel demo_class (mem_ext (PyObj 1))
         (snd (LLM_bentomodel demo_class (mem_ext (PyObj 1)) (demo_llm, empty_machine)))
       = (Inr demo_imported,
          snd (LLM_bentomodel demo_class (mem_ext (PyObj 1)) (demo_llm, empty_machine)))"
proof -
  let ?R = "LLM_bentomodel demo_class (mem_ext (PyObj 1)) (demo_llm, empty_machine)"
  have h1: "bentomodel_cache (fst (demo_llm, empty_machine)) = None"
    by (simp add: demo_llm_def new_llm_def)
  have f: "fst ?R = Inr demo_imported"
    by code_simp
  have h2: "?R = (Inr demo_imported, snd ?R)"
    using f by (simp add: prod_eq_iff)
  have miss: "is_miss (lookup_outcome demo_class (mem_ext (PyObj 1)) (demo_llm, empty_machine))"
    by code_simp
  have dflt: "import_model_attr demo_class = None"
    by (simp add: demo_class_def)
  from bentomodel_memoized [OF h1 h2]
  obtain evs where "trace (snd (snd ?R)) = trace (snd (demo_llm, empty_machine)) @ evs"
      "count_events is_store_get evs = 1"
      "is_miss (lookup_outcome demo_class (mem_ext (PyObj 1)) (demo_llm, empty_machine)) \<longrightarrow>
         count_events is_import evs = 1
         \<and> (import_model_attr demo_class = None \<longrightarrow> count_events is_store_save evs = 1)"
      "LLM_bentomodel demo_class (mem_ext (PyObj 1)) (snd ?R) = (Inr demo_imported, snd ?R)"
    by (elim conjE exE)
  then show ?thesis
    using h1 f miss dflt by (intro conjI exI [of _ evs]) simp_all
qed

text \<open>
  C1 as stated fails where the import fails: the model type is not supported, the first
  call raises after one \<^verbatim>\<open>get\<close>, one call of the import routine and no save, the cache
  stays empty, and a second call goes to the store again.
\<close>

theorem failed_import_counterexample:
  "bentomodel_cache (fst (demo_llm, empty_machine)) = None
   \<and> is_miss (lookup_outcome demo_class (mem_ext (PyObj 3)) (demo_llm, empty_machine))
   \<and> fst (LLM_bentomodel demo_class (mem_ext (PyObj 3)) (demo_llm, empty_machine))
       = Inl (OpenLLMException ''Model type is not supported yet.'')
   \<and> count_events is_import
        (trace (snd (snd (LLM_bentomodel demo_class (mem_ext (PyObj 3))
                            (demo_llm, empty_machine))))) = 1
   \<and> count_events is_store_save
        (trace (snd (snd (LLM_bentomodel demo_class (mem_ext (PyObj 3))
                            (demo_llm, empty_machine))))) = 0
   \<and> count_events is_store_get
        (trace (snd (snd (LLM_bentomodel demo_class (mem_ext (PyObj 3))
           (snd (LLM_bentomodel demo_class (mem_ext (PyObj 3)) (demo_llm, empty_machine)))))))
       = 2"
  by code_simp

theorem cache_hit_no_import_witness:
  "bentomodel_cache (fst (demo_llm, stocked_machine)) = None
   \<and> is_hit (lookup_outcome demo_class (mem_ext (PyObj 1)) (demo_llm, stocked_machine))
   \<and> (\<exists>b s' evs.
         LLM_bentomodel demo_class (mem_ext (PyObj 1)) (demo_llm, stocked_machine) = (Inr b, s')
         \<and> bentomodel_cache (fst s') = Some b
         \<and> trace (snd s') = trace (snd (demo_llm, stocked_machine)) @ evs
         \<and> count_events is_store_get evs = 1
         \<and> count_events is_import evs = 0
         \<and> count_events is_store_save evs = 0)"
proof -
  have h1: "bentomodel_cache (fst (demo_llm, stocked_machine)) = None"
    by (simp add: demo_llm_def new_llm_def)
  have h2: "is_hit (lookup_outcome demo_class (mem_ext (PyObj 1)) (demo_llm, stocked_machine))"
    by code_simp
  show ?thesis
    using h1 h2 cache_hit_no_import [OF h1 h2] by (intro conjI)
qed

section \<open>The model and tokenizer accessors\<close>


lemma LLM_model_resolve_fails:
  "llm_model_cache (fst s) = PyNone \<Longrightarrow> LLM_bentomodel cls ext s = (Inl e, s1) \<Longrightarrow>
   LLM_model cls ext s = (Inl e, s1)"
  by (simp add: LLM_model_def bnd_apply)

lemma LLM_model_load:
  assumes "llm_model_cache (fst s) = PyNone"
      and "LLM_bentomodel cls ext s = (Inr b, s1)"
      and "load_model ext b (self_args (fst s1)) (self_kwargs (fst s1)) (world (snd s1)) = (r, w)"
  shows "LLM_model cls ext s =
           (r, (case r of Inl e \<Rightarrow> fst s1 | Inr m \<Rightarrow> (fst s1)\<lparr>llm_model_cache := m\<rparr>),
               \<lparr>world = w,
                trace = trace (snd s1)
                        @ [EvLoadModel (tag_of b) (self_args (fst s1)) (self_kwargs (fst s1))]\<rparr>)"
  using assms
  by (cases r) (simp_all add: LLM_model_def bnd_apply extern_apply)




text \<open>
  On a store miss \<^verbatim>\<open>ChatGLM.import_model\<close> gives \<open>trust_remote_code\<close> twice; with an
  interpreter that raises \<^verbatim>\<open>KeyError\<close> for it, the tokenizer accessor reports a missing
  tokenizer, while the model accessor lets the \<^verbatim>\<open>KeyError\<close> through.
\<close>

lemma ChatGLM_miss_accessors:
  "fst (LLM_tokenizer (ChatGLM chatglm_config_class) (mem_ext (PyObj 1))
          (chatglm_llm, empty_machine))
     = Inl (OpenLLMException no_tokenizer_message)
   \<and> fst (LLM_model (ChatGLM chatglm_config_class) (mem_ext (PyObj 1))
            (chatglm_llm, empty_machine))
       = Inl (KeyError ''trust_remote_code'')"
  by code_simp

section \<open>The stored keyword arguments\<close>

text \<open>
  C10. The first evaluation of the artifact accessor (empty cache) removes the
  \<open>trust_remote_code\<close> entry from the stored keyword arguments, whether or not the
  resolution succeeds, and leaves every other entry and the positional arguments as
  they were; a model load that follows passes the stored keyword arguments without
  \<open>trust_remote_code\<close>.
\<close>

theorem bentomodel_pops_trust_remote_code:
  assumes "bentomodel_cache (fst s) = None"
  shows "self_kwargs (fst (snd (LLM_bentomodel cls ext s)))
           = AList.delete ''trust_remote_code'' (self_kwargs (fst s))
         \<and> map_of (self_kwargs (fst (snd (LLM_bentomodel cls ext s)))) ''trust_remote_code'' = None
         \<and> (\<forall>k. k \<noteq> ''trust_remote_code'' \<longrightarrow>
               map_of (self_kwargs (fst (snd (LLM_bentomodel cls ext s)))) k
                 = map_of (self_kwargs (fst s)) k)
         \<and> (\<forall>mdl s'. llm_model_cache (fst s) = PyNone \<longrightarrow>
               LLM_model cls ext s = (Inr mdl, s') \<longrightarrow>
               (\<exists>t evs. trace (snd s') = trace (snd s) @ evs
                   @ [EvLoadModel t (self_args (fst s))
                        (AList.delete ''trust_remote_code'' (self_kwargs (fst s)))]))"
proof -
  have kw: "self_kwargs (fst (snd (LLM_bentomodel cls ext s)))
              = AList.delete ''trust_remote_code'' (self_kwargs (fst s))"
    and ar: "self_args (fst (snd (LLM_bentomodel cls ext s))) = self_args (fst s)"
    using LLM_bentomodel_kwargs [OF assms, of cls ext] by simp_all
  have gone: "map_of (AList.delete ''trust_remote_code'' (self_kwargs (fst s)))
                ''trust_remote_code'' = None"
    by (simp add: delete_conv')
  have load: "\<exists>t evs. trace (snd s') = trace (snd s) @ evs
                   @ [EvLoadModel t (self_args (fst s))
                        (AList.delete ''trust_remote_code'' (self_kwargs (fst s)))]"
    if c: "llm_model_cache (fst s) = PyNone" and m: "LLM_model cls ext s = (Inr mdl, s')"
    for mdl s'
  proof -
    obtain rb s1 where b: "LLM_bentomodel cls ext s = (rb, s1)"
      by (cases "LLM_bentomodel cls ext s")
    show ?thesis
    proof (cases rb)
      case (Inl e)
      then show ?thesis
        using LLM_model_resolve_fails [OF c, of cls ext e s1] b m by simp
    next
      case (Inr bm)
      then have b': "LLM_bentomodel cls ext s = (Inr bm, s1)"
        using b by simp
      obtain evs where ev: "trace (snd s1) = trace (snd s) @ evs"
        using LLM_bentomodel_first_call [OF assms b'] by (elim conjE exE)
      have kw1: "self_kwargs (fst s1) = AList.delete ''trust_remote_code'' (self_kwargs (fst s))"
        and ar1: "self_args (fst s1) = self_args (fst s)"
        using kw ar b' by simp_all
      obtain r w where l: "load_model ext bm (self_args (fst s1)) (self_kwargs (fst s1))
                             (world (snd s1)) = (r, w)"
        by (cases "load_model ext bm (self_args (fst s1)) (self_kwargs (fst s1)) (world (snd s1))")
      have "trace (snd s') = trace (snd s1)
              @ [EvLoadModel (tag_of bm) (self_args (fst s1)) (self_kwargs (fst s1))]"
        using LLM_model_load [OF c b' l] m by auto
      then have "trace (snd s') = trace (snd s) @ evs
                   @ [EvLoadModel (tag_of bm) (self_args (fst s))
                        (AList.delete ''trust_remote_code'' (self_kwargs (fst s)))]"
        using ev kw1 ar1 by simp
      then show ?thesis by blast
    qed
  qed
  show ?thesis
    using kw gone load by simp
qed

theorem bentomodel_pops_trust_remote_code_witness:
  "bentomodel_cache (fst (demo_llm, stocked_machine)) = None
   \<and> map_of (self_kwargs (fst (demo_llm, stocked_machine))) ''trust_remote_code''
       = Some (PyBool True)
   \<and> self_kwargs (fst (snd (LLM_bentomodel demo_class (mem_ext (PyObj 1))
                               (demo_llm, stocked_machine))))
       = [(''_tokenizer_padding_side'', PyStr ''left''), (''device_map'', PyStr ''auto'')]
   \<and> trace (snd (snd (LLM_model demo_class (mem_ext (PyObj 1)) (demo_llm, stocked_machine))))
       = [EvGenerateTags ''google/flan-t5-large'', EvStoreGet ''pt-google/flan-t5-large'',
          EvLoadModel ''pt-google/flan-t5-large'' []
            [(''_tokenizer_padding_side'', PyStr ''left''), (''device_map'', PyStr ''auto'')]]"
proof -
  have h: "bentomodel_cache (fst (demo_llm, stocked_machine)) = None"
    by (simp add: demo_llm_def new_llm_def)
  have k: "self_kwargs demo_llm = demo_kwargs"
    by (simp add: demo_llm_def new_llm_def)
  have t: "trace (snd (snd (LLM_model demo_class (mem_ext (PyObj 1)) (demo_llm, stocked_machine))))
       = [EvGenerateTags ''google/flan-t5-large'', EvStoreGet ''pt-google/flan-t5-large'',
          EvLoadModel ''pt-google/flan-t5-large'' []
            [(''_tokenizer_padding_side'', PyStr ''left''), (''device_map'', PyStr ''auto'')]]"
    by code_simp
  show ?thesis
    using h t bentomodel_pops_trust_remote_code [OF h, of demo_class "mem_ext (PyObj 1)"]
    by (simp add: k demo_kwargs_def)
qed

section \<open>Runner contracts and \<^verbatim>\<open>ChatGLM.generate\<close>\<close>

lemma map_of_convert_signatures_dict:
  "map_of (convert_signatures_dict dflt mc) k =
     (case map_of mc k of
        None \<Rightarrow> None
      | Some (Inl d) \<Rightarrow> Some (from_dict dflt d)
      | Some (Inr sg) \<Rightarrow> Some sg)"
  by (induction mc) (auto simp: convert_signatures_dict_def split: sum.splits)

lemma dict_get_convert:
  "dict_get (convert_signatures_dict dflt mc) k sg0 =
     (case map_of mc k of
        None \<Rightarrow> sg0
      | Some (Inl d) \<Rightarrow> from_dict dflt d
      | Some (Inr sg) \<Rightarrow> sg)"
  by (simp add: dict_get_def map_of_convert_signatures_dict split: option.splits sum.splits)

lemma batchable_default [simp]: "batchable (from_dict dflt (signature_dict_batchable b)) = b"
  by (simp add: from_dict_def signature_dict_batchable_def)

text \<open>
  C8. A runner that \<open>LLM_to_runner\<close> returns has, when no method configs are given, a
  non-batchable \<open>generate\<close> contract and a batchable \<open>generate_iterator\<close> contract; when
  method configs are given, each of the two contracts is the one given under the
  method's name, and the default one (non-batchable, batchable) when the name is absent.
\<close>

theorem to_runner_contracts:
  assumes "LLM_to_runner cls ext dflt camelize name models max_batch_size max_latency_ms
             method_configs embedded scheduling_strategy kwargs s = (Inr r, s')"
  shows "(case method_configs of
            None \<Rightarrow>
              \<not> batchable (generate_contract r) \<and> batchable (generate_iterator_contract r)
          | Some mc \<Rightarrow>
              generate_contract r =
                (case map_of mc ''generate'' of
                   None \<Rightarrow> from_dict dflt (signature_dict_batchable False)
                 | Some (Inl d) \<Rightarrow> from_dict dflt d
                 | Some (Inr sg) \<Rightarrow> sg)
              \<and> generate_iterator_contract r =
                (case map_of mc ''generate_iterator'' of
                   None \<Rightarrow> from_dict dflt (signature_dict_batchable True)
                 | Some (Inl d) \<Rightarrow> from_dict dflt d
                 | Some (Inr sg) \<Rightarrow> sg))
         \<and> \<not> batchable (from_dict dflt (signature_dict_batchable False))
         \<and> batchable (from_dict dflt (signature_dict_batchable True))"
proof (cases method_configs)
  case None
  then show ?thesis
    using assms
    by (auto simp: LLM_to_runner_def bnd_eq_Inr Let_def split: option.splits)
next
  case (Some mc)
  then show ?thesis
    using assms
    by (auto simp: LLM_to_runner_def bnd_eq_Inr Let_def dict_get_convert split: option.splits)
qed


theorem to_runner_contracts_witness:
  "(case fst (LLM_to_runner demo_class (mem_ext (PyObj 1)) default_signature id None None None None
               (Some [(''generate'', Inl (signature_dict_batchable True))]) False None []
               (demo_llm, stocked_machine)) of
      Inl e \<Rightarrow> False
    | Inr r \<Rightarrow> batchable (generate_contract r) \<and> batchable (generate_iterator_contract r))
   \<and> (case fst (LLM_to_runner demo_class (mem_ext (PyObj 1)) default_signature id None None None
                  None None False None [] (demo_llm, stocked_machine)) of
         Inl e \<Rightarrow> False
       | Inr r \<Rightarrow> \<not> batchable (generate_contract r) \<and> batchable (generate_iterator_contract r))"
proof -
  let ?A = "LLM_to_runner demo_class (mem_ext (PyObj 1)) default_signature id None None None None
               (Some [(''generate'', Inl (signature_dict_batchable True))]) False None []
               (demo_llm, stocked_machine)"
  let ?B = "LLM_to_runner demo_class (mem_ext (PyObj 1)) default_signature id None None None
                  None None False None [] (demo_llm, stocked_machine)"
  have "case fst ?A of Inl e \<Rightarrow> False | Inr r \<Rightarrow> True"
    by code_simp
  then obtain ra where ra: "?A = (Inr ra, snd ?A)"
    by (cases "fst ?A") (simp_all add: prod_eq_iff)
  have "case fst ?B of Inl e \<Rightarrow> False | Inr r \<Rightarrow> True"
    by code_simp
  then obtain rb where rb: "?B = (Inr rb, snd ?B)"
    by (cases "fst ?B") (simp_all add: prod_eq_iff)
  have a: "batchable (generate_contract ra) \<and> batchable (generate_iterator_contract ra)"
    using to_runner_contracts [OF ra] by simp
  have b: "\<not> batchable (generate_contract rb) \<and> batchable (generate_iterator_contract rb)"
    using to_runner_contracts [OF rb] by simp
  have fa: "fst ?A = Inr ra"
    using ra by (metis fst_conv)
  have fb: "fst ?B = Inr rb"
    using rb by (metis fst_conv)
  show ?thesis
    unfolding fa fb using a b by simp
qed

lemma assign_model_raises: "\<exists>e. fst (assign_model cls ext method s) = Inl e"
proof -
  obtain rm s1 where m: "LLM_model cls ext s = (rm, s1)"
    by (cases "LLM_model cls ext s")
  show ?thesis
  proof (cases rm)
    case (Inl e)
    then show ?thesis using m by (simp add: assign_model_def)
  next
    case (Inr mdl)
    obtain rt w where t: "torch_method ext method mdl (world (snd s1)) = (rt, w)"
      by (cases "torch_method ext method mdl (world (snd s1))")
    show ?thesis
      using m Inr t by (cases rt) (simp_all add: assign_model_def bnd_apply extern_apply)
  qed
qed

lemma assign_model_forbidden:
  assumes "LLM_model cls ext s = (Inr mdl, s1)"
      and "torch_method ext method mdl (world (snd s1)) = (Inr mdl', w)"
  shows "fst (assign_model cls ext method s) = Inl (ForbiddenAttributeError ''model'')"
  using assms by (simp add: assign_model_def bnd_apply extern_apply)

lemma bnd_raises: "fst (m s) = Inl e \<Longrightarrow> fst (bnd m f s) = Inl e"
  by (cases "m s") (simp add: bnd_def)

text \<open>
  C9 (as amended). No invocation of \<open>generate\<close> returns an output: each raises at or
  before its first assignment to \<open>model\<close>. When the model accessor returns a model and the
  first conversion of it (\<open>half\<close>, \<open>cuda\<close> or \<open>float\<close>) returns, the exception is
  \<^verbatim>\<open>ForbiddenAttributeError\<close> for \<open>model\<close>.
\<close>

theorem ChatGLM_generate_raises:
  "(\<exists>e. fst (ChatGLM_generate cls ext prompt options s) = Inl e)
   \<and> (\<forall>mdl s1 mdl' w.
         LLM_model cls ext s = (Inr mdl, s1) \<longrightarrow>
         torch_method ext
           (if cuda_is_available ext
            then (if use_half_precision (config (fst s)) then ''half'' else ''cuda'')
            else ''float'')
           mdl (world (snd s1)) = (Inr mdl', w) \<longrightarrow>
         fst (ChatGLM_generate cls ext prompt options s)
           = Inl (ForbiddenAttributeError ''model''))"
proof -
  let ?first = "if cuda_is_available ext
          then bnd (getattr config) (\<lambda>c.
               bnd (if use_half_precision c then assign_model cls ext ''half'' else ret ()) (\<lambda>_.
               assign_model cls ext ''cuda''))
          else assign_model cls ext ''float''"
  let ?meth = "if cuda_is_available ext
            then (if use_half_precision (config (fst s)) then ''half'' else ''cuda'')
            else ''float''"
  have first: "fst (?first s) = fst (assign_model cls ext ?meth s)"
  proof (cases "cuda_is_available ext")
    case False
    then show ?thesis by simp
  next
    case True
    show ?thesis
    proof (cases "use_half_precision (config (fst s))")
      case h: True
      obtain e where "fst (assign_model cls ext ''half'' s) = Inl e"
        using assign_model_raises by blast
      then show ?thesis
        using True h by (simp add: bnd_raises)
    next
      case h: False
      then show ?thesis using True by simp
    qed
  qed
  have gen: "fst (?first s) = Inl e \<Longrightarrow> fst (ChatGLM_generate cls ext prompt options s) = Inl e"
    for e
    unfolding ChatGLM_generate_def by (rule bnd_raises)
  obtain e where e: "fst (assign_model cls ext ?meth s) = Inl e"
    using assign_model_raises by blast
  have 1: "\<exists>e. fst (ChatGLM_generate cls ext prompt options s) = Inl e"
    using gen [of e] first e by auto
  have 2: "fst (ChatGLM_generate cls ext prompt options s) = Inl (ForbiddenAttributeError ''model'')"
    if "LLM_model cls ext s = (Inr mdl, s1)"
       "torch_method ext ?meth mdl (world (snd s1)) = (Inr mdl', w)"
    for mdl s1 mdl' w
    using gen first assign_model_forbidden [OF that] by simp
  show ?thesis
    using 1 2 by blast
qed

theorem ChatGLM_generate_raises_witness:
  "LLM_model (ChatGLM chatglm_config_class) (mem_ext (PyObj 1)) (chatglm_llm, chatglm_machine)
     = (Inr (PyObj 10),
        snd (LLM_model (ChatGLM chatglm_config_class) (mem_ext (PyObj 1))
               (chatglm_llm, chatglm_machine)))
   \<and> fst (ChatGLM_generate (ChatGLM chatglm_config_class) (mem_ext (PyObj 1)) ''hello'' []
            (chatglm_llm, chatglm_machine))
       = Inl (ForbiddenAttributeError ''model'')"
proof -
  let ?M = "LLM_model (ChatGLM chatglm_config_class) (mem_ext (PyObj 1))
              (chatglm_llm, chatglm_machine)"
  have f: "fst ?M = Inr (PyObj 10)"
    by code_simp
  have m: "?M = (Inr (PyObj 10), snd ?M)"
    using f by (simp add: prod_eq_iff)
  have t: "torch_method (mem_ext (PyObj 1))
             (if cuda_is_available (mem_ext (PyObj 1))
              then (if use_half_precision (config (fst (chatglm_llm, chatglm_machine)))
                    then ''half'' else ''cuda'')
              else ''float'')
             (PyObj 10) (world (snd (snd ?M))) = (Inr (PyObj 10), world (snd (snd ?M)))"
    by (simp add: mem_ext_def)
  show ?thesis
    using m t ChatGLM_generate_raises [of "ChatGLM chatglm_config_class" "mem_ext (PyObj 1)"
                 "''hello''" "[]" "(chatglm_llm, chatglm_machine)"]
    by blast
qed

text \<open>
  C9 as stated fails where the model cannot be loaded: \<open>generate\<close> evaluates
  \<^verbatim>\<open>self.model\<close> before it assigns, the artifact is in the store, \<^verbatim>\<open>load_model\<close> raises, and
  \<open>generate\<close> raises that exception and not the one of the guard.
\<close>

theorem ChatGLM_generate_load_counterexample:
  "fst (ChatGLM_generate (ChatGLM chatglm_config_class) failing_load_ext ''hello'' []
          (chatglm_llm, chatglm_machine))
     = Inl (BackendError ''load failed'')"
  by code_simp

end
